theory Spec2Isabelle
  imports Main
begin

section \<open>Errors and number rendering\<close>

text \<open>
  The proxy raises plain \<^verbatim>\<open>Error\<close> objects with a message
  (\<^verbatim>\<open>throw new Error('...')\<close>); the JavaScript runtime raises
  \<^verbatim>\<open>TypeError\<close> when a property of \<^verbatim>\<open>null\<close> or
  \<^verbatim>\<open>undefined\<close> is read or a non-function is called.  Errors raised by the
  collaborators (\<^verbatim>\<open>fetch\<close> rejecting, \<^verbatim>\<open>response.json()\<close>
  rejecting) are passed on unchanged and are kept opaque.
\<close>

datatype js_error =
    Error string
  | TypeError
  | CollaboratorError string

text \<open>Decimal rendering of a number inside a template literal (\<^verbatim>\<open>${response.status}\<close>).\<close>

definition digitChar :: "nat \<Rightarrow> char" where
  "digitChar d = ''0123456789'' ! d"

function natToString :: "nat \<Rightarrow> string" where
  "natToString n =
     (if n < 10 then [digitChar n]
      else natToString (n div 10) @ [digitChar (n mod 10)])"
  by pat_completeness auto
termination
  by (relation "measure id") auto

declare natToString.simps [simp del]

section \<open>Token cache: \<^verbatim>\<open>getSpotifyToken\<close>\<close>

text \<open>
  \<^verbatim>\<open>SPOTIFY_CONFIG\<close>: both fields come from \<^verbatim>\<open>process.env\<close>, so each is
  a string or \<^verbatim>\<open>undefined\<close> (\<open>None\<close>).
\<close>

record config =
  clientId :: "string option"
  clientSecret :: "string option"

text \<open>
  The two module-level variables \<^verbatim>\<open>accessToken\<close> and \<^verbatim>\<open>tokenExpiry\<close>,
  both initially \<^verbatim>\<open>null\<close> (\<open>None\<close>).  The expiry is an instant in
  milliseconds since the epoch, as \<^verbatim>\<open>Date.now()\<close> reports it.
\<close>

record cache =
  accessToken :: "string option"
  tokenExpiry :: "int option"

definition initialCache :: cache where
  "initialCache = \<lparr>accessToken = None, tokenExpiry = None\<rparr>"

text \<open>
  The body of a successful token response, \<^verbatim>\<open>data\<close>: the token string and the
  lifetime in seconds.  The token endpoint's reply is taken to be well typed
  (a string and an integer); a reply with other field types is outside this model.
\<close>

record token_data =
  access_token :: string
  expires_in :: int

text \<open>
  What \<^verbatim>\<open>fetch\<close> resolves to: \<^verbatim>\<open>response.ok\<close>,
  \<^verbatim>\<open>response.status\<close>, the result of \<^verbatim>\<open>response.text()\<close> and the
  result of \<^verbatim>\<open>response.json()\<close> (which rejects when the body does not parse).
\<close>

record response =
  ok :: bool
  status :: nat
  responseText :: string
  json :: "js_error + token_data"

datatype fetch_result =
    Rejected js_error
  | Resolved response

text \<open>
  The one external call of this function: the POST to the token endpoint, carrying the
  client id and secret in its \<^verbatim>\<open>Authorization\<close> header.  Every call of
  \<open>getSpotifyToken\<close> reports the list of external calls it made.
\<close>

datatype external_call = TokenRequest string string

text \<open>JavaScript truthiness of the values tested on lines 86 and 91.\<close>

definition truthyString :: "string option \<Rightarrow> bool" where
  "truthyString v = (case v of None \<Rightarrow> False | Some s \<Rightarrow> s \<noteq> [])"

definition truthyNumber :: "int option \<Rightarrow> bool" where
  "truthyNumber v = (case v of None \<Rightarrow> False | Some n \<Rightarrow> n \<noteq> 0)"

text \<open>
  Line 86: \<^verbatim>\<open>accessToken && tokenExpiry && Date.now() < tokenExpiry\<close>.
\<close>

definition cacheHit :: "cache \<Rightarrow> int \<Rightarrow> bool" where
  "cacheHit c now =
     (truthyString (accessToken c) \<and> truthyNumber (tokenExpiry c) \<and>
      (case tokenExpiry c of None \<Rightarrow> False | Some e \<Rightarrow> now < e))"

text \<open>
  A template literal renders a missing value as the text \<^verbatim>\<open>undefined\<close>; line 99
  builds the \<^verbatim>\<open>Authorization\<close> header from the two credentials with one.
\<close>

definition templateString :: "string option \<Rightarrow> string" where
  "templateString v = (case v of None \<Rightarrow> ''undefined'' | Some s \<Rightarrow> s)"

text \<open>
  \<open>getSpotifyToken cfg now0 reply now1 c\<close>: one call on the cache \<open>c\<close>.
  \<open>now0\<close> is what \<^verbatim>\<open>Date.now()\<close> returns on line 86, \<open>reply\<close> is what the
  awaited \<^verbatim>\<open>fetch\<close> of line 95 produces if it is reached, and \<open>now1\<close> is what
  \<^verbatim>\<open>Date.now()\<close> returns on line 111, after the reply has arrived.  The result is
  the value returned or the error thrown, the cache afterwards, and the external calls made.
  The \<^verbatim>\<open>catch\<close> block of lines 114-117 logs and rethrows, so it changes nothing here.
\<close>

definition getSpotifyToken ::
  "config \<Rightarrow> int \<Rightarrow> fetch_result \<Rightarrow> int \<Rightarrow> cache \<Rightarrow>
     (js_error + string) \<times> cache \<times> external_call list" where
  "getSpotifyToken cfg now0 reply now1 c =
     (case (cacheHit c now0, accessToken c) of
        (True, Some tok) \<Rightarrow> (Inr tok, c, [])
      | _ \<Rightarrow>
        (if \<not> truthyString (clientId cfg) \<or> \<not> truthyString (clientSecret cfg)
         then (Inl (Error ''Spotify credentials not configured''), c, [])
         else
           (let call = TokenRequest (templateString (clientId cfg))
                                    (templateString (clientSecret cfg))
            in case reply of
                 Rejected e \<Rightarrow> (Inl e, c, [call])
               | Resolved r \<Rightarrow>
                   (if \<not> ok r
                    then (Inl (Error (''Spotify token error: '' @ natToString (status r) @
                                      '' - '' @ responseText r)),
                          c, [call])
                    else
                      (case json r of
                         Inl e \<Rightarrow> (Inl e, c, [call])
                       | Inr d \<Rightarrow>
                           (Inr (access_token d),
                            \<lparr>accessToken = Some (access_token d),
                             tokenExpiry = Some (now1 + (expires_in d - 60) * 1000)\<rparr>,
                            [call]))))))"

subsection \<open>Reachable cache states\<close>

text \<open>
  The real expiry of a token, in the words of the specification: the instant at which the
  token was stored plus its reported lifetime.  \<open>realExpiryAfter\<close> follows one call: a
  call that stored a token (it made the external call and returned a value) sets the real
  expiry to \<open>now1 + expires_in * 1000\<close>; any other call leaves it as it was.
\<close>

definition realExpiryAfter ::
  "fetch_result \<Rightarrow> int \<Rightarrow> (js_error + string) \<Rightarrow> external_call list \<Rightarrow>
     int option \<Rightarrow> int option" where
  "realExpiryAfter reply now1 res calls g =
     (case (res, calls, reply) of
        (Inr tok, call # rest, Resolved r) \<Rightarrow>
          (case json r of
             Inr d \<Rightarrow> Some (now1 + expires_in d * 1000)
           | Inl e \<Rightarrow> g)
      | _ \<Rightarrow> g)"

text \<open>
  \<open>reach cfg c g\<close>: the cache \<open>c\<close> is reachable from the initial one by calls of
  \<open>getSpotifyToken\<close> under the configuration \<open>cfg\<close>, with any clock readings and
  any replies, and \<open>g\<close> is the real expiry of the token it holds (\<open>None\<close> while no
  token was ever stored).
\<close>

inductive reach :: "config \<Rightarrow> cache \<Rightarrow> int option \<Rightarrow> bool" for cfg :: config where
  reach_initial: "reach cfg initialCache None"
| reach_call:
    "reach cfg c g \<Longrightarrow> getSpotifyToken cfg now0 reply now1 c = (res, c', calls) \<Longrightarrow>
     reach cfg c' (realExpiryAfter reply now1 res calls g)"

text \<open>The instant at which a call returns its token: at once on a cache hit, after the
  reply has been stored otherwise.\<close>

definition returnInstant :: "int \<Rightarrow> int \<Rightarrow> external_call list \<Rightarrow> int" where
  "returnInstant now0 now1 calls = (if calls = [] then now0 else now1)"

section \<open>JavaScript values\<close>

text \<open>
  The catalog handlers work on whatever JSON the upstream API returned, so the raw records
  are modelled as untyped JavaScript values.  \<open>Undefined\<close> never occurs inside parsed
  JSON, but it is what reading a missing property yields.  Numbers are integers here: the
  numeric fields the handlers pass through (durations, track counts) are whole numbers, and
  no handler computes with them.  An object is the list of its properties in source order.
\<close>

datatype jsv =
    Undefined
  | Null
  | Boolean bool
  | Number int
  | String string
  | Array "jsv list"
  | Object "(string \<times> jsv) list"

text \<open>Truthiness, as \<^verbatim>\<open>&&\<close>, \<^verbatim>\<open>||\<close> and the filter callbacks test it.\<close>

fun truthy :: "jsv \<Rightarrow> bool" where
  "truthy Undefined = False"
| "truthy Null = False"
| "truthy (Boolean b) = b"
| "truthy (Number n) = (n \<noteq> 0)"
| "truthy (String s) = (s \<noteq> [])"
| "truthy (Array xs) = True"
| "truthy (Object kvs) = True"

fun nullish :: "jsv \<Rightarrow> bool" where
  "nullish Undefined = True"
| "nullish Null = True"
| "nullish v = False"

text \<open>
  The value of the property \<open>k\<close> of an object; when a key is repeated in the JSON text,
  \<^verbatim>\<open>JSON.parse\<close> keeps the last occurrence.
\<close>

definition property :: "(string \<times> jsv) list \<Rightarrow> string \<Rightarrow> jsv" where
  "property kvs k = (case map_of (rev kvs) k of None \<Rightarrow> Undefined | Some v \<Rightarrow> v)"

text \<open>
  Member access \<^verbatim>\<open>v.k\<close>, for the property names the handlers read: \<^verbatim>\<open>id\<close>,
  \<^verbatim>\<open>name\<close>, \<^verbatim>\<open>artists\<close>, \<^verbatim>\<open>album\<close>, \<^verbatim>\<open>images\<close>, \<^verbatim>\<open>url\<close>,
  \<^verbatim>\<open>preview_url\<close>, \<^verbatim>\<open>duration_ms\<close>, \<^verbatim>\<open>external_urls\<close>, \<^verbatim>\<open>spotify\<close>,
  \<^verbatim>\<open>track\<close>, \<^verbatim>\<open>tracks\<close>, \<^verbatim>\<open>items\<close>, \<^verbatim>\<open>albums\<close>, \<^verbatim>\<open>release_date\<close>,
  \<^verbatim>\<open>total_tracks\<close>, \<^verbatim>\<open>common\<close>, \<^verbatim>\<open>format\<close>, \<^verbatim>\<open>tags\<close>, \<^verbatim>\<open>title\<close>.
  None of them is a built-in property of arrays, strings, numbers or booleans, so on those
  the access yields \<^verbatim>\<open>undefined\<close>; on \<^verbatim>\<open>null\<close> and \<^verbatim>\<open>undefined\<close> it
  raises a \<^verbatim>\<open>TypeError\<close>.
\<close>

fun get :: "jsv \<Rightarrow> string \<Rightarrow> js_error + jsv" where
  "get Undefined k = Inl TypeError"
| "get Null k = Inl TypeError"
| "get (Object kvs) k = Inr (property kvs k)"
| "get v k = Inr Undefined"

text \<open>Optional chaining \<^verbatim>\<open>v?.k\<close>: \<^verbatim>\<open>undefined\<close> where \<^verbatim>\<open>v.k\<close> would raise.\<close>

definition optionalGet :: "jsv \<Rightarrow> string \<Rightarrow> jsv" where
  "optionalGet v k = (case get v k of Inl e \<Rightarrow> Undefined | Inr x \<Rightarrow> x)"

text \<open>
  Indexing \<^verbatim>\<open>v[i]\<close> with a numeric literal.  Strings are indexed by character
  (exact for ASCII text).
\<close>

fun index :: "jsv \<Rightarrow> nat \<Rightarrow> js_error + jsv" where
  "index Undefined i = Inl TypeError"
| "index Null i = Inl TypeError"
| "index (Array xs) i = Inr (if i < length xs then xs ! i else Undefined)"
| "index (String s) i = Inr (if i < length s then String [s ! i] else Undefined)"
| "index (Object kvs) i = Inr (property kvs (natToString i))"
| "index v i = Inr Undefined"

text \<open>String conversion, as \<^verbatim>\<open>Array.prototype.join\<close> applies it to each element.\<close>

definition numberToString :: "int \<Rightarrow> string" where
  "numberToString n = (if n < 0 then ''-'' @ natToString (nat (- n)) else natToString (nat n))"

fun join :: "string \<Rightarrow> string list \<Rightarrow> string" where
  "join sep [] = []"
| "join sep [s] = s"
| "join sep (s # t # ss) = s @ sep @ join sep (t # ss)"

fun toString :: "jsv \<Rightarrow> string" where
  "toString Undefined = ''undefined''"
| "toString Null = ''null''"
| "toString (Boolean b) = (if b then ''true'' else ''false'')"
| "toString (Number n) = numberToString n"
| "toString (String s) = s"
| "toString (Array xs) = join '','' (map (\<lambda>x. if nullish x then [] else toString x) xs)"
| "toString (Object kvs) = ''[object Object]''"

text \<open>\<^verbatim>\<open>xs.join(sep)\<close>: \<^verbatim>\<open>null\<close> and \<^verbatim>\<open>undefined\<close> elements become empty.\<close>

definition arrayJoin :: "string \<Rightarrow> jsv list \<Rightarrow> string" where
  "arrayJoin sep xs = join sep (map (\<lambda>x. if nullish x then [] else toString x) xs)"

text \<open>
  What the client receives from \<^verbatim>\<open>res.json(v)\<close>: \<^verbatim>\<open>JSON.stringify\<close> leaves out
  every property whose value is \<^verbatim>\<open>undefined\<close> and writes \<^verbatim>\<open>null\<close> for an
  \<^verbatim>\<open>undefined\<close> array element.
\<close>

fun resJson :: "jsv \<Rightarrow> jsv" where
  "resJson (Array xs) = Array (map (\<lambda>x. if x = Undefined then Null else resJson x) xs)"
| "resJson (Object kvs) =
     Object (map (\<lambda>kv. (fst kv, resJson (snd kv))) (filter (\<lambda>kv. snd kv \<noteq> Undefined) kvs))"
| "resJson v = v"

text \<open>The property names of an object literal (whose keys are distinct), in order.\<close>

fun keys :: "jsv \<Rightarrow> string list" where
  "keys (Object kvs) = map fst kvs"
| "keys v = []"

subsection \<open>Sequencing, \<^verbatim>\<open>map\<close> and \<^verbatim>\<open>filter\<close> with callbacks that may throw\<close>

definition andThen :: "js_error + 'a \<Rightarrow> ('a \<Rightarrow> js_error + 'b) \<Rightarrow> js_error + 'b" where
  "andThen m f = (case m of Inl e \<Rightarrow> Inl e | Inr v \<Rightarrow> f v)"

text \<open>\<^verbatim>\<open>a || b\<close>: \<open>b\<close> is evaluated only when \<open>a\<close> is falsy.\<close>

definition orElse :: "js_error + jsv \<Rightarrow> js_error + jsv \<Rightarrow> js_error + jsv" where
  "orElse a b = andThen a (\<lambda>v. if truthy v then Inr v else b)"

text \<open>
  The receiver of \<^verbatim>\<open>.map\<close> and \<^verbatim>\<open>.filter\<close> must be an array: on
  \<^verbatim>\<open>null\<close> and \<^verbatim>\<open>undefined\<close> the member access raises, on any other value
  the method is missing and the call raises.
\<close>

fun elements :: "jsv \<Rightarrow> js_error + jsv list" where
  "elements (Array xs) = Inr xs"
| "elements v = Inl TypeError"

fun arrayMap :: "('a \<Rightarrow> js_error + 'b) \<Rightarrow> 'a list \<Rightarrow> js_error + 'b list" where
  "arrayMap f [] = Inr []"
| "arrayMap f (x # xs) =
     andThen (f x) (\<lambda>y. andThen (arrayMap f xs) (\<lambda>ys. Inr (y # ys)))"

fun arrayFilter :: "('a \<Rightarrow> js_error + jsv) \<Rightarrow> 'a list \<Rightarrow> js_error + 'a list" where
  "arrayFilter p [] = Inr []"
| "arrayFilter p (x # xs) =
     andThen (p x) (\<lambda>v. andThen (arrayFilter p xs) (\<lambda>ys. Inr (if truthy v then x # ys else ys)))"

section \<open>Catalog normalization\<close>

text \<open>\<^verbatim>\<open>images[i]?.url\<close>\<close>

definition imageUrl :: "jsv \<Rightarrow> nat \<Rightarrow> js_error + jsv" where
  "imageUrl images i = andThen (index images i) (\<lambda>image. Inr (optionalGet image ''url''))"

text \<open>
  \<^verbatim>\<open>track.album?.images[i]?.url\<close>: when the album is \<^verbatim>\<open>null\<close> or missing the
  whole chain is \<^verbatim>\<open>undefined\<close>; otherwise \<^verbatim>\<open>images\<close> is indexed unguarded.
\<close>

definition albumImageUrl :: "jsv \<Rightarrow> nat \<Rightarrow> js_error + jsv" where
  "albumImageUrl track i =
     andThen (get track ''album'') (\<lambda>album.
       if nullish album then Inr Undefined
       else andThen (get album ''images'') (\<lambda>images. imageUrl images i))"

text \<open>Lines 172, 221 and 252: the cover art of a track.\<close>

definition trackCoverArt :: "jsv \<Rightarrow> js_error + jsv" where
  "trackCoverArt track =
     orElse (orElse (albumImageUrl track 2) (albumImageUrl track 1)) (albumImageUrl track 0)"

text \<open>\<^verbatim>\<open>album.images[i]?.url\<close> and line 276: the cover art of a new release.\<close>

definition releaseImageUrl :: "jsv \<Rightarrow> nat \<Rightarrow> js_error + jsv" where
  "releaseImageUrl album i = andThen (get album ''images'') (\<lambda>images. imageUrl images i)"

definition releaseCoverArt :: "jsv \<Rightarrow> js_error + jsv" where
  "releaseCoverArt album =
     orElse (orElse (releaseImageUrl album 2) (releaseImageUrl album 1)) (releaseImageUrl album 0)"

text \<open>\<^verbatim>\<open>artists.map(artist => artist.name).join(', ')\<close>\<close>

definition artistNames :: "jsv \<Rightarrow> js_error + jsv" where
  "artistNames artists =
     andThen (elements artists) (\<lambda>xs.
     andThen (arrayMap (\<lambda>artist. get artist ''name'') xs) (\<lambda>names.
     Inr (String (arrayJoin '', '' names))))"

text \<open>
  The object literal of lines 167-176, 216-225 and 247-256, written once for the track it
  reads (\<^verbatim>\<open>item.track\<close> in the first handler, \<^verbatim>\<open>track\<close> in the other two); the
  three copies in the source differ in nothing else.  The properties are evaluated in order.
\<close>

definition trackObject :: "jsv \<Rightarrow> js_error + jsv" where
  "trackObject track =
     andThen (get track ''id'') (\<lambda>id'.
     andThen (get track ''name'') (\<lambda>title.
     andThen (andThen (get track ''artists'') artistNames) (\<lambda>artist.
     andThen (andThen (get track ''album'') (\<lambda>album. Inr (optionalGet album ''name''))) (\<lambda>album.
     andThen (trackCoverArt track) (\<lambda>coverArt.
     andThen (get track ''preview_url'') (\<lambda>previewUrl.
     andThen (get track ''duration_ms'') (\<lambda>duration.
     andThen (andThen (get track ''external_urls'') (\<lambda>urls. get urls ''spotify'')) (\<lambda>externalUrl.
     Inr (Object
       [(''id'', id'), (''title'', title), (''artist'', artist), (''album'', album),
        (''coverArt'', coverArt), (''previewUrl'', previewUrl), (''duration'', duration),
        (''externalUrl'', externalUrl)])))))))))"

text \<open>The object literal of lines 272-280.\<close>

definition releaseObject :: "jsv \<Rightarrow> js_error + jsv" where
  "releaseObject album =
     andThen (get album ''id'') (\<lambda>id'.
     andThen (get album ''name'') (\<lambda>title.
     andThen (andThen (get album ''artists'') artistNames) (\<lambda>artist.
     andThen (releaseCoverArt album) (\<lambda>coverArt.
     andThen (andThen (get album ''external_urls'') (\<lambda>urls. get urls ''spotify'')) (\<lambda>externalUrl.
     andThen (get album ''release_date'') (\<lambda>releaseDate.
     andThen (get album ''total_tracks'') (\<lambda>totalTracks.
     Inr (Object
       [(''id'', id'), (''title'', title), (''artist'', artist), (''coverArt'', coverArt),
        (''externalUrl'', externalUrl), (''releaseDate'', releaseDate),
        (''totalTracks'', totalTracks)]))))))))"

text \<open>
  Line 166, the filter callback of the featured-tracks handler:
  \<^verbatim>\<open>item.track && item.track.preview_url\<close>.
\<close>

definition playableItem :: "jsv \<Rightarrow> js_error + jsv" where
  "playableItem item =
     andThen (get item ''track'') (\<lambda>track.
       if truthy track then get track ''preview_url'' else Inr track)"

text \<open>
  The four handlers, from the upstream JSON to the array handed to \<^verbatim>\<open>res.json\<close>.
  An error (\<open>Inl\<close>) is caught by the handler's \<^verbatim>\<open>catch\<close> block, which answers 500
  with a generic body.  \<open>featuredTracks\<close> is lines 165-176 on \<^verbatim>\<open>playlistTracks\<close>,
  \<open>genreTracks\<close> lines 214-225, \<open>searchTracks\<close> lines 245-256 and \<open>newReleases\<close>
  lines 272-280, each on \<^verbatim>\<open>data\<close>.
\<close>

definition featuredTracks :: "jsv \<Rightarrow> js_error + jsv list" where
  "featuredTracks playlistTracks =
     andThen (get playlistTracks ''items'') (\<lambda>items.
     andThen (elements items) (\<lambda>xs.
     andThen (arrayFilter playableItem xs) (\<lambda>kept.
     arrayMap (\<lambda>item. andThen (get item ''track'') trackObject) kept)))"

definition genreTracks :: "jsv \<Rightarrow> js_error + jsv list" where
  "genreTracks data =
     andThen (get data ''tracks'') (\<lambda>tracks.
     andThen (elements tracks) (\<lambda>xs.
     andThen (arrayFilter (\<lambda>track. get track ''preview_url'') xs) (\<lambda>kept.
     arrayMap trackObject kept)))"

definition searchTracks :: "jsv \<Rightarrow> js_error + jsv list" where
  "searchTracks data =
     andThen (get data ''tracks'') (\<lambda>tracks.
     andThen (get tracks ''items'') (\<lambda>items.
     andThen (elements items) (\<lambda>xs.
     andThen (arrayFilter (\<lambda>track. get track ''preview_url'') xs) (\<lambda>kept.
     arrayMap trackObject kept))))"

definition newReleases :: "jsv \<Rightarrow> js_error + jsv list" where
  "newReleases data =
     andThen (get data ''albums'') (\<lambda>albums.
     andThen (get albums ''items'') (\<lambda>items.
     andThen (elements items) (\<lambda>xs.
     arrayMap releaseObject xs)))"

section \<open>Metadata extraction: the title of \<^verbatim>\<open>extractMetadata\<close>\<close>

text \<open>
  Lines 35, 36 and 52 of \<^verbatim>\<open>src/extract-metadata.js\<close> (the older copy of the function
  has the same three expressions).  \<open>meta\<close> is what the tag parser returned and \<open>probe\<close>
  what the media probe returned.
  \<^verbatim>\<open>const c = meta.common ?? {}\<close>,
  \<^verbatim>\<open>const f = probe?.format ?? meta.format ?? {}\<close>,
  \<^verbatim>\<open>title: c.title || f.tags?.title || "Untitled"\<close>.
\<close>

definition commonTags :: "jsv \<Rightarrow> js_error + jsv" where
  "commonTags meta =
     andThen (get meta ''common'') (\<lambda>common.
       Inr (if nullish common then Object [] else common))"

definition formatInfo :: "jsv \<Rightarrow> jsv \<Rightarrow> js_error + jsv" where
  "formatInfo probe meta =
     (if \<not> nullish (optionalGet probe ''format'') then Inr (optionalGet probe ''format'')
      else andThen (get meta ''format'') (\<lambda>format.
             Inr (if nullish format then Object [] else format)))"

definition extractedTitle :: "jsv \<Rightarrow> jsv \<Rightarrow> js_error + jsv" where
  "extractedTitle probe meta =
     andThen (commonTags meta) (\<lambda>c.
     andThen (formatInfo probe meta) (\<lambda>f.
     orElse (orElse (get c ''title'')
                    (andThen (get f ''tags'') (\<lambda>tags. Inr (optionalGet tags ''title''))))
            (Inr (String ''Untitled''))))"

section \<open>Notions used by the statements\<close>

text \<open>
  A track has a preview audio URL when its \<^verbatim>\<open>preview_url\<close> is present and truthy
  (not \<^verbatim>\<open>null\<close>, not missing, not the empty string).
\<close>

definition hasPreviewUrl :: "jsv \<Rightarrow> bool" where
  "hasPreviewUrl track = truthy (optionalGet track ''preview_url'')"

text \<open>
  The URL of the image descriptor at index \<open>i\<close> of a list of descriptors,
  \<^verbatim>\<open>undefined\<close> when the list is shorter or the descriptor has none.
\<close>

definition urlAt :: "jsv list \<Rightarrow> nat \<Rightarrow> jsv" where
  "urlAt xs i = (if i < length xs then optionalGet (xs ! i) ''url'' else Undefined)"

section \<open>Sample inputs\<close>

definition sampleConfig :: config where
  "sampleConfig = \<lparr>clientId = Some ''id'', clientSecret = Some ''secret''\<rparr>"

definition sampleReply :: "int \<Rightarrow> fetch_result" where
  "sampleReply lifetime =
     Resolved \<lparr>ok = True, status = 200, responseText = [],
               json = Inr \<lparr>access_token = ''BQDtoken'', expires_in = lifetime\<rparr>\<rparr>"

definition sampleFailure :: fetch_result where
  "sampleFailure =
     Resolved \<lparr>ok = False, status = 401, responseText = ''invalid_client'',
               json = Inl (CollaboratorError ''not read'')\<rparr>"

definition sampleTrack :: "string \<Rightarrow> jsv \<Rightarrow> jsv" where
  "sampleTrack name preview =
     Object [(''id'', String ''t1''), (''name'', String name),
             (''artists'', Array [Object [(''name'', String ''A'')], Object [(''name'', String ''B'')]]),
             (''album'', Object [(''name'', String ''LP''),
                (''images'', Array [Object [(''url'', String ''L'')], Object [(''url'', String ''M'')],
                                    Object [(''url'', String ''S'')]])]),
             (''preview_url'', preview), (''duration_ms'', Number 1000),
             (''external_urls'', Object [(''spotify'', String ''https://open/t1'')])]"

definition sampleRecommendations :: jsv where
  "sampleRecommendations =
     Object [(''tracks'', Array [sampleTrack ''X'' Null, sampleTrack ''Y'' (String ''p'')])]"

definition sampleSearch :: jsv where
  "sampleSearch =
     Object [(''tracks'', Object [(''items'',
        Array [sampleTrack ''X'' (String []), sampleTrack ''Y'' (String ''p'')])])]"

definition samplePlaylist :: jsv where
  "samplePlaylist =
     Object [(''items'', Array [Object [(''track'', Null)],
                                Object [(''track'', sampleTrack ''X'' Null)],
                                Object [(''track'', sampleTrack ''Y'' (String ''p''))]])]"

definition sampleNormalizedTrack :: jsv where
  "sampleNormalizedTrack =
     Object [(''id'', String ''t1''), (''title'', String ''Y''), (''artist'', String ''A, B''),
             (''album'', String ''LP''), (''coverArt'', String ''S''),
             (''previewUrl'', String ''p''), (''duration'', Number 1000),
             (''externalUrl'', String ''https://open/t1'')]"

definition sampleAlbum :: "jsv list \<Rightarrow> jsv" where
  "sampleAlbum images =
     Object [(''id'', String ''a1''), (''name'', String ''X''),
             (''artists'', Array [Object [(''name'', String ''Y'')]]),
             (''images'', Array images),
             (''external_urls'', Object [(''spotify'', String ''https://open/a1'')]),
             (''release_date'', String ''2020-01-01''), (''total_tracks'', Number 10)]"

definition sampleImages :: "jsv list" where
  "sampleImages = [Object [(''url'', String ''L'')], Object [(''url'', String ''M'')],
                   Object [(''url'', String ''S'')]]"

definition sampleNewReleases :: jsv where
  "sampleNewReleases = Object [(''albums'', Object [(''items'', Array [sampleAlbum sampleImages])])]"

definition sampleNormalizedRelease :: "jsv \<Rightarrow> jsv" where
  "sampleNormalizedRelease coverArt =
     Object [(''id'', String ''a1''), (''title'', String ''X''), (''artist'', String ''Y''),
             (''coverArt'', coverArt), (''externalUrl'', String ''https://open/a1''),
             (''releaseDate'', String ''2020-01-01''), (''totalTracks'', Number 10)]"

definition sampleImagesEmptyUrl :: "jsv list" where
  "sampleImagesEmptyUrl = [Object [(''url'', String ''L'')], Object [(''url'', String ''M'')],
                           Object [(''url'', String [])]]"

definition sampleNamelessTrack :: jsv where
  "sampleNamelessTrack =
     Object [(''id'', String ''t2''), (''artists'', Array [Object [(''name'', String ''A'')]]),
             (''album'', Object [(''name'', String ''LP''), (''images'', Array [])]),
             (''preview_url'', String ''p''), (''duration_ms'', Number 1000),
             (''external_urls'', Object [(''spotify'', String ''https://open/t2'')])]"

definition sampleNormalizedNameless :: jsv where
  "sampleNormalizedNameless =
     Object [(''id'', String ''t2''), (''title'', Undefined), (''artist'', String ''A''),
             (''album'', String ''LP''), (''coverArt'', Undefined),
             (''previewUrl'', String ''p''), (''duration'', Number 1000),
             (''externalUrl'', String ''https://open/t2'')]"

definition sampleMeta :: "jsv \<Rightarrow> jsv" where
  "sampleMeta title =
     Object [(''common'', Object [(''title'', title), (''artist'', String ''A'')]),
             (''format'', Object [(''container'', String ''MPEG'')])]"

definition sampleProbe :: "jsv \<Rightarrow> jsv" where
  "sampleProbe tags =
     Object [(''format'', Object [(''format_long_name'', String ''MP3''), (''tags'', tags)]),
             (''streams'', Array [])]"

section \<open>Properties of the token cache\<close>

lemma cacheHit_iff:
  "cacheHit c now \<longleftrightarrow>
     (\<exists>tok e. accessToken c = Some tok \<and> tok \<noteq> [] \<and> tokenExpiry c = Some e \<and> e \<noteq> 0 \<and> now < e)"
  by (auto simp: cacheHit_def truthyString_def truthyNumber_def split: option.splits)

text \<open>
  No cached token, no recorded expiry, or an expiry that is not strictly after the current
  instant: in each of these cases the test of line 86 fails.
\<close>

lemma no_token_or_expired:
  "accessToken c = None \<or> tokenExpiry c = None \<or> (\<exists>e. tokenExpiry c = Some e \<and> \<not> now < e)
   \<Longrightarrow> \<not> cacheHit c now"
  by (auto simp: cacheHit_iff)

lemma getSpotifyToken_hit:
  "cacheHit c now0 \<Longrightarrow> accessToken c = Some tok \<Longrightarrow>
   getSpotifyToken cfg now0 reply now1 c = (Inr tok, c, [])"
  by (simp add: getSpotifyToken_def)

lemma getSpotifyToken_miss:
  "\<not> cacheHit c now0 \<Longrightarrow>
   getSpotifyToken cfg now0 reply now1 c =
     (if \<not> truthyString (clientId cfg) \<or> \<not> truthyString (clientSecret cfg)
      then (Inl (Error ''Spotify credentials not configured''), c, [])
      else
        (let call = TokenRequest (templateString (clientId cfg))
                                 (templateString (clientSecret cfg))
         in case reply of
              Rejected e \<Rightarrow> (Inl e, c, [call])
            | Resolved r \<Rightarrow>
                (if \<not> ok r
                 then (Inl (Error (''Spotify token error: '' @ natToString (status r) @
                                   '' - '' @ responseText r)),
                       c, [call])
                 else
                   (case json r of
                      Inl e \<Rightarrow> (Inl e, c, [call])
                    | Inr d \<Rightarrow>
                        (Inr (access_token d),
                         \<lparr>accessToken = Some (access_token d),
                          tokenExpiry = Some (now1 + (expires_in d - 60) * 1000)\<rparr>,
                         [call])))))"
  by (simp add: getSpotifyToken_def split: bool.splits option.splits)

text \<open>
  \<^bold>\<open>C1.\<close>  When the cache holds a token and a recorded expiry (line 86 tests both
  variables for truthiness: the token is set and not the empty string, the expiry is set and
  not zero) and the current instant is strictly before that expiry, \<open>getSpotifyToken\<close>
  returns the cached token, leaves the cache as it is and makes no external call, whatever
  the configuration holds and whatever the token endpoint would have answered.
\<close>

theorem cached_token_returned:
  assumes "accessToken c = Some tok" and "tok \<noteq> []"
    and "tokenExpiry c = Some e" and "e \<noteq> 0" and "now0 < e"
  shows "getSpotifyToken cfg now0 reply now1 c = (Inr tok, c, [])"
proof -
  have "cacheHit c now0"
    using assms by (simp add: cacheHit_iff)
  then show ?thesis
    using assms(1) by (rule getSpotifyToken_hit)
qed

theorem cached_token_returned_witness:
  "getSpotifyToken \<lparr>clientId = None, clientSecret = None\<rparr> 1000
     (Rejected (CollaboratorError ''offline'')) 1200
     \<lparr>accessToken = Some ''BQDtoken'', tokenExpiry = Some 5000\<rparr>
   = (Inr ''BQDtoken'', \<lparr>accessToken = Some ''BQDtoken'', tokenExpiry = Some 5000\<rparr>, [])"
  using cached_token_returned
    [of "\<lparr>accessToken = Some ''BQDtoken'', tokenExpiry = Some 5000\<rparr>" "''BQDtoken''" 5000 1000
        "\<lparr>clientId = None, clientSecret = None\<rparr>" "Rejected (CollaboratorError ''offline'')" 1200]
  by simp

text \<open>
  \<^bold>\<open>C2\<close> (as amended).  When the test of line 86 fails (no cached token, no recorded
  expiry, or the current instant is not strictly before the expiry), both credentials are
  configured and the exchange succeeds, \<open>getSpotifyToken\<close> makes exactly one external
  call, stores the returned token, and returns it; the stored expiry is the clock reading
  \<open>now1\<close> taken on line 111, after the reply has arrived, plus (reported lifetime minus 60
  seconds), in milliseconds: not the instant \<open>now0\<close> at which the call began.  For a
  lifetime of 3600 seconds stored at \<open>now1\<close> the expiry is \<open>now1\<close> plus 3540 seconds,
  and a call at \<open>now1\<close> plus 3541 seconds makes the external call again.
\<close>

theorem refresh_stores_token:
  assumes miss: "\<not> cacheHit c now0"
    and cid: "clientId cfg = Some cid" "cid \<noteq> []"
    and sec: "clientSecret cfg = Some secret" "secret \<noteq> []"
    and reply: "reply = Resolved r" "ok r" "json r = Inr d"
  shows "getSpotifyToken cfg now0 reply now1 c =
           (Inr (access_token d),
            \<lparr>accessToken = Some (access_token d),
             tokenExpiry = Some (now1 + (expires_in d - 60) * 1000)\<rparr>,
            [TokenRequest cid secret])
         \<and> (expires_in d = 3600 \<longrightarrow>
              now1 + (expires_in d - 60) * 1000 = now1 + 3540 * 1000 \<and>
              (\<forall>reply' now1'.
                 snd (snd (getSpotifyToken cfg (now1 + 3541 * 1000) reply' now1'
                             \<lparr>accessToken = Some (access_token d),
                              tokenExpiry = Some (now1 + 3540 * 1000)\<rparr>)) =
                   [TokenRequest cid secret]))"
proof -
  have configured: "truthyString (clientId cfg)" "truthyString (clientSecret cfg)"
    using cid sec by (simp_all add: truthyString_def)
  have first: "getSpotifyToken cfg now0 reply now1 c =
      (Inr (access_token d),
       \<lparr>accessToken = Some (access_token d),
        tokenExpiry = Some (now1 + (expires_in d - 60) * 1000)\<rparr>,
       [TokenRequest cid secret])"
    using configured cid sec reply
    by (simp add: getSpotifyToken_miss [OF miss] templateString_def)
  have later: "snd (snd (getSpotifyToken cfg (now1 + 3541 * 1000) reply' now1'
                 \<lparr>accessToken = Some (access_token d),
                  tokenExpiry = Some (now1 + 3540 * 1000)\<rparr>)) =
      [TokenRequest cid secret]" for reply' now1'
  proof -
    have "\<not> cacheHit \<lparr>accessToken = Some (access_token d),
                       tokenExpiry = Some (now1 + 3540 * 1000)\<rparr> (now1 + 3541 * 1000)"
      by (simp add: cacheHit_iff)
    then show ?thesis
      using configured cid sec
      by (simp add: getSpotifyToken_miss templateString_def Let_def
               split: fetch_result.splits sum.splits)
  qed
  show ?thesis
    using first later by simp
qed

theorem refresh_stores_token_witness:
  "getSpotifyToken sampleConfig 1000 (sampleReply 3600) 1200 initialCache =
     (Inr ''BQDtoken'',
      \<lparr>accessToken = Some ''BQDtoken'', tokenExpiry = Some 3541200\<rparr>,
      [TokenRequest ''id'' ''secret''])
   \<and> snd (snd (getSpotifyToken sampleConfig 3542200 (sampleReply 3600) 3542300
                 \<lparr>accessToken = Some ''BQDtoken'', tokenExpiry = Some 3541200\<rparr>)) =
       [TokenRequest ''id'' ''secret'']"
proof -
  have miss: "\<not> cacheHit initialCache 1000"
    by (simp add: cacheHit_def initialCache_def truthyString_def)
  show ?thesis
    using refresh_stores_token
      [OF miss, where cfg = sampleConfig and cid = "''id''" and secret = "''secret''"
        and reply = "sampleReply 3600"
        and r = "\<lparr>ok = True, status = 200, responseText = [],
                 json = Inr \<lparr>access_token = ''BQDtoken'', expires_in = 3600\<rparr>\<rparr>"
        and d = "\<lparr>access_token = ''BQDtoken'', expires_in = 3600\<rparr>" and ?now1.0 = 1200]
    by (simp add: sampleConfig_def sampleReply_def)
qed

text \<open>
  \<^bold>\<open>C2\<close> as stated fails when the clock advances during the exchange: a call that
  begins at 1000 ms and whose reply is stored at 3000 ms records the expiry 3543000, not
  the call time plus 3540 seconds (3541000), and a call made 3541 seconds after the first
  call began is still served from the cache, with no exchange.
\<close>

theorem expiry_from_store_instant_counterexample:
  "getSpotifyToken sampleConfig 1000 (sampleReply 3600) 3000 initialCache =
     (Inr ''BQDtoken'',
      \<lparr>accessToken = Some ''BQDtoken'', tokenExpiry = Some 3543000\<rparr>,
      [TokenRequest ''id'' ''secret''])
   \<and> (3543000 :: int) \<noteq> 1000 + (3600 - 60) * 1000
   \<and> getSpotifyToken sampleConfig (1000 + 3541 * 1000) (sampleReply 3600) (1000 + 3541 * 1000)
       \<lparr>accessToken = Some ''BQDtoken'', tokenExpiry = Some 3543000\<rparr> =
     (Inr ''BQDtoken'', \<lparr>accessToken = Some ''BQDtoken'', tokenExpiry = Some 3543000\<rparr>, [])"
  by (simp add: getSpotifyToken_def cacheHit_def initialCache_def truthyString_def
        truthyNumber_def templateString_def sampleConfig_def sampleReply_def)

lemma reach_real_expiry:
  "reach cfg c g \<Longrightarrow>
   (case tokenExpiry c of None \<Rightarrow> g = None | Some e \<Rightarrow> g = Some (e + 60 * 1000))"
proof (induction rule: reach.induct)
  case reach_initial
  show ?case by (simp add: initialCache_def)
next
  case (reach_call c g now0 reply now1 res c' calls)
  show ?case
  proof (cases "cacheHit c now0")
    case True
    then obtain tok where "accessToken c = Some tok"
      by (auto simp: cacheHit_iff)
    with True reach_call.hyps(2) have "c' = c" "calls = []"
      by (simp_all add: getSpotifyToken_hit)
    with reach_call.IH show ?thesis
      by (simp add: realExpiryAfter_def split: sum.splits option.splits)
  next
    case False
    from reach_call.hyps(2) reach_call.IH show ?thesis
      by (auto simp: getSpotifyToken_miss [OF False] realExpiryAfter_def Let_def
               split: if_splits fetch_result.splits sum.splits option.splits)
  qed
qed

text \<open>
  \<^bold>\<open>C3\<close> (as amended).  In every reachable cache state, a call that returns a cached
  token returns it more than 60 seconds before the token's real expiry (the instant it was
  stored plus its reported lifetime).  A call that returns a fresh token returns it at least
  60 seconds before that real expiry exactly when the reported lifetime is at least 60
  seconds.
\<close>

theorem returned_token_margin:
  assumes "reach cfg c g"
    and "getSpotifyToken cfg now0 reply now1 c = (Inr tok, c', calls)"
  shows "(calls = [] \<longrightarrow>
            (\<exists>x. realExpiryAfter reply now1 (Inr tok) calls g = Some x \<and>
                 returnInstant now0 now1 calls + 60 * 1000 < x))
       \<and> (calls \<noteq> [] \<longrightarrow>
            (\<exists>r d. reply = Resolved r \<and> json r = Inr d \<and>
                 realExpiryAfter reply now1 (Inr tok) calls g = Some (now1 + expires_in d * 1000) \<and>
                 (returnInstant now0 now1 calls + 60 * 1000 \<le> now1 + expires_in d * 1000
                    \<longleftrightarrow> 60 \<le> expires_in d)))"
proof (cases "cacheHit c now0")
  case True
  then obtain t e where hit: "accessToken c = Some t" "tokenExpiry c = Some e" "now0 < e"
    by (auto simp: cacheHit_iff)
  from True hit(1) assms(2) have "calls = []"
    by (simp add: getSpotifyToken_hit)
  moreover from reach_real_expiry [OF assms(1)] hit(2) have "g = Some (e + 60 * 1000)"
    by simp
  ultimately show ?thesis
    using hit(3) by (simp add: realExpiryAfter_def returnInstant_def)
next
  case False
  from assms(2) show ?thesis
    by (auto simp: getSpotifyToken_miss [OF False] realExpiryAfter_def returnInstant_def Let_def
             split: if_splits fetch_result.splits sum.splits)
qed

theorem returned_token_margin_witness:
  "reach sampleConfig \<lparr>accessToken = Some ''BQDtoken'', tokenExpiry = Some 3541200\<rparr>
     (Some 3601200)
   \<and> getSpotifyToken sampleConfig 2000 sampleFailure 2100
       \<lparr>accessToken = Some ''BQDtoken'', tokenExpiry = Some 3541200\<rparr> =
     (Inr ''BQDtoken'', \<lparr>accessToken = Some ''BQDtoken'', tokenExpiry = Some 3541200\<rparr>, [])
   \<and> realExpiryAfter sampleFailure 2100 (Inr ''BQDtoken'') [] (Some 3601200) = Some 3601200
   \<and> returnInstant 2000 2100 [] + 60 * 1000 < 3601200
   \<and> realExpiryAfter (sampleReply 3600) 1200 (Inr ''BQDtoken'') [TokenRequest ''id'' ''secret'']
       None = Some 3601200
   \<and> returnInstant 1000 1200 [TokenRequest ''id'' ''secret''] + 60 * 1000 \<le> 3601200"
proof -
  have first: "getSpotifyToken sampleConfig 1000 (sampleReply 3600) 1200 initialCache =
     (Inr ''BQDtoken'',
      \<lparr>accessToken = Some ''BQDtoken'', tokenExpiry = Some 3541200\<rparr>,
      [TokenRequest ''id'' ''secret''])"
    by (simp add: getSpotifyToken_def cacheHit_def initialCache_def truthyString_def
          templateString_def sampleConfig_def sampleReply_def)
  have r: "reach sampleConfig \<lparr>accessToken = Some ''BQDtoken'', tokenExpiry = Some 3541200\<rparr>
     (Some 3601200)"
    using reach_call [OF reach_initial first]
    by (simp add: realExpiryAfter_def sampleReply_def)
  have second: "getSpotifyToken sampleConfig 2000 sampleFailure 2100
       \<lparr>accessToken = Some ''BQDtoken'', tokenExpiry = Some 3541200\<rparr> =
     (Inr ''BQDtoken'', \<lparr>accessToken = Some ''BQDtoken'', tokenExpiry = Some 3541200\<rparr>, [])"
    by (simp add: getSpotifyToken_def cacheHit_def truthyString_def truthyNumber_def)
  have cached: "realExpiryAfter sampleFailure 2100 (Inr ''BQDtoken'') [] (Some 3601200) = Some 3601200
      \<and> returnInstant 2000 2100 [] + 60 * 1000 < 3601200"
    using returned_token_margin [OF r second]
    by (auto simp: realExpiryAfter_def returnInstant_def)
  have fresh: "realExpiryAfter (sampleReply 3600) 1200 (Inr ''BQDtoken'')
        [TokenRequest ''id'' ''secret''] None = Some 3601200
      \<and> returnInstant 1000 1200 [TokenRequest ''id'' ''secret''] + 60 * 1000 \<le> 3601200"
    using returned_token_margin [OF reach_initial first]
    by (auto simp: sampleReply_def)
  from r second cached fresh show ?thesis
    by simp
qed

text \<open>
  \<^bold>\<open>C3\<close> as stated fails for a fresh token whose reported lifetime is below the margin:
  with a lifetime of 30 seconds the token is handed out at the instant it is stored, 30
  seconds before its real expiry.
\<close>

theorem fresh_short_lived_token_counterexample:
  "reach sampleConfig initialCache None
   \<and> getSpotifyToken sampleConfig 1000 (sampleReply 30) 1200 initialCache =
     (Inr ''BQDtoken'',
      \<lparr>accessToken = Some ''BQDtoken'', tokenExpiry = Some (- 28800)\<rparr>,
      [TokenRequest ''id'' ''secret''])
   \<and> realExpiryAfter (sampleReply 30) 1200 (Inr ''BQDtoken'') [TokenRequest ''id'' ''secret''] None
       = Some (1200 + 30 * 1000)
   \<and> \<not> returnInstant 1000 1200 [TokenRequest ''id'' ''secret''] + 60 * 1000 \<le> 1200 + 30 * 1000"
  using reach_initial [of sampleConfig]
  by (simp add: getSpotifyToken_def cacheHit_def initialCache_def truthyString_def
        templateString_def sampleConfig_def sampleReply_def realExpiryAfter_def returnInstant_def)

text \<open>
  \<^bold>\<open>C4.\<close>  When the exchange is made and the token endpoint answers with a non-success
  status, \<open>getSpotifyToken\<close> fails with the error whose message carries the upstream
  status and body, the two cached variables are unchanged, and every later call (the clock
  not running backwards) makes the external call again.
\<close>

theorem failed_exchange_keeps_cache:
  assumes miss: "\<not> cacheHit c now0"
    and cid: "clientId cfg = Some cid" "cid \<noteq> []"
    and sec: "clientSecret cfg = Some secret" "secret \<noteq> []"
    and reply: "reply = Resolved r" "\<not> ok r"
  shows "getSpotifyToken cfg now0 reply now1 c =
           (Inl (Error (''Spotify token error: '' @ natToString (status r) @ '' - '' @
                        responseText r)),
            c, [TokenRequest cid secret])
         \<and> (\<forall>later reply' now1'. now0 \<le> later \<longrightarrow>
                snd (snd (getSpotifyToken cfg later reply' now1' c)) = [TokenRequest cid secret])"
proof -
  have configured: "truthyString (clientId cfg)" "truthyString (clientSecret cfg)"
    using cid sec by (simp_all add: truthyString_def)
  have first: "getSpotifyToken cfg now0 reply now1 c =
      (Inl (Error (''Spotify token error: '' @ natToString (status r) @ '' - '' @
                   responseText r)),
       c, [TokenRequest cid secret])"
    using configured cid sec reply
    by (simp add: getSpotifyToken_miss [OF miss] templateString_def)
  have again: "snd (snd (getSpotifyToken cfg later reply' now1' c)) = [TokenRequest cid secret]"
    if "now0 \<le> later" for later reply' now1'
  proof -
    have "\<not> cacheHit c later"
      using miss that by (auto simp: cacheHit_iff)
    then show ?thesis
      using configured cid sec
      by (simp add: getSpotifyToken_miss templateString_def Let_def
               split: fetch_result.splits sum.splits)
  qed
  show ?thesis
    using first again by simp
qed

theorem failed_exchange_keeps_cache_witness:
  "getSpotifyToken sampleConfig 4000000 sampleFailure 4000100
     \<lparr>accessToken = Some ''BQDtoken'', tokenExpiry = Some 3541200\<rparr> =
     (Inl (Error ''Spotify token error: 401 - invalid_client''),
      \<lparr>accessToken = Some ''BQDtoken'', tokenExpiry = Some 3541200\<rparr>,
      [TokenRequest ''id'' ''secret''])
   \<and> snd (snd (getSpotifyToken sampleConfig 4000200 (sampleReply 3600) 4000300
                 \<lparr>accessToken = Some ''BQDtoken'', tokenExpiry = Some 3541200\<rparr>)) =
       [TokenRequest ''id'' ''secret'']"
proof -
  have miss: "\<not> cacheHit \<lparr>accessToken = Some ''BQDtoken'', tokenExpiry = Some 3541200\<rparr> 4000000"
    by (simp add: cacheHit_def)
  have digits: "natToString 401 = ''401''"
    by (simp add: natToString.simps digitChar_def)
  show ?thesis
    using failed_exchange_keeps_cache
      [OF miss, where cfg = sampleConfig and cid = "''id''" and secret = "''secret''"
        and reply = sampleFailure
        and r = "\<lparr>ok = False, status = 401, responseText = ''invalid_client'',
                 json = Inl (CollaboratorError ''not read'')\<rparr>" and ?now1.0 = 4000100]
      digits
    by (simp add: sampleConfig_def sampleFailure_def)
qed

text \<open>
  \<^bold>\<open>C5.\<close>  When no valid cached token exists and the client id or the client secret is
  absent (\<^verbatim>\<open>undefined\<close> or empty), \<open>getSpotifyToken\<close> fails with the configuration
  error, leaves the cache unchanged and makes no external call, whatever the token endpoint
  would have answered.
\<close>

theorem missing_credentials_fail_first:
  assumes "\<not> cacheHit c now0"
    and "\<not> truthyString (clientId cfg) \<or> \<not> truthyString (clientSecret cfg)"
  shows "getSpotifyToken cfg now0 reply now1 c =
           (Inl (Error ''Spotify credentials not configured''), c, [])"
  using assms by (auto simp: getSpotifyToken_miss)

theorem missing_credentials_fail_first_witness:
  "getSpotifyToken \<lparr>clientId = Some ''id'', clientSecret = None\<rparr> 1000 (sampleReply 3600) 1200
     initialCache =
     (Inl (Error ''Spotify credentials not configured''), initialCache, [])"
proof -
  have miss: "\<not> cacheHit initialCache 1000"
    by (simp add: cacheHit_def initialCache_def truthyString_def)
  show ?thesis
    using missing_credentials_fail_first
      [OF miss, of "\<lparr>clientId = Some ''id'', clientSecret = None\<rparr>" "sampleReply 3600" 1200]
    by (simp add: truthyString_def)
qed

section \<open>Properties of the catalog normalization\<close>

lemma andThen_simps [simp]:
  "andThen (Inl e) f = Inl e"
  "andThen (Inr v) f = f v"
  by (simp_all add: andThen_def)

lemma andThen_Inr [simp]: "andThen m Inr = m" "andThen m (\<lambda>x. Inr x) = m"
  by (cases m; simp)+

lemma andThen_eq_Inr:
  "andThen m f = Inr y \<longleftrightarrow> (\<exists>v. m = Inr v \<and> f v = Inr y)"
  by (cases m) simp_all

lemma get_Inr_optionalGet: "get v k = Inr x \<Longrightarrow> optionalGet v k = x"
  by (simp add: optionalGet_def)

lemma arrayFilter_Inr:
  "arrayFilter p xs = Inr ys \<Longrightarrow>
   ys = filter (\<lambda>x. case p x of Inl e \<Rightarrow> False | Inr v \<Rightarrow> truthy v) xs"
  by (induction xs arbitrary: ys) (auto simp: andThen_eq_Inr)

lemma arrayMap_Inr:
  "arrayMap f xs = Inr ys \<Longrightarrow> list_all2 (\<lambda>x y. f x = Inr y) xs ys"
  by (induction xs arbitrary: ys) (auto simp: andThen_eq_Inr)

lemma arrayFilter_insert_falsy:
  "p x = Inr v \<Longrightarrow> \<not> truthy v \<Longrightarrow> arrayFilter p (xs @ x # ys) = arrayFilter p (xs @ ys)"
  by (induction xs) simp_all

lemma elements_eq_Inr: "elements v = Inr xs \<longleftrightarrow> v = Array xs"
  by (cases v) auto

lemma trackObject_Inr:
  assumes "trackObject track = Inr obj"
  obtains id' title artist album coverArt previewUrl duration externalUrl where
    "obj = Object [(''id'', id'), (''title'', title), (''artist'', artist), (''album'', album),
        (''coverArt'', coverArt), (''previewUrl'', previewUrl), (''duration'', duration),
        (''externalUrl'', externalUrl)]"
    "get track ''name'' = Inr title"
    "andThen (get track ''artists'') artistNames = Inr artist"
    "trackCoverArt track = Inr coverArt"
    "get track ''preview_url'' = Inr previewUrl"
  using assms unfolding trackObject_def andThen_eq_Inr by blast

lemma releaseObject_Inr:
  assumes "releaseObject album = Inr obj"
  obtains id' title artist coverArt externalUrl releaseDate totalTracks where
    "obj = Object [(''id'', id'), (''title'', title), (''artist'', artist), (''coverArt'', coverArt),
        (''externalUrl'', externalUrl), (''releaseDate'', releaseDate),
        (''totalTracks'', totalTracks)]"
    "get album ''name'' = Inr title"
    "andThen (get album ''artists'') artistNames = Inr artist"
    "releaseCoverArt album = Inr coverArt"
  using assms unfolding releaseObject_def andThen_eq_Inr by blast

lemma trackObject_previewUrl:
  "trackObject track = Inr obj \<Longrightarrow> get obj ''previewUrl'' = get track ''preview_url''"
  by (erule trackObject_Inr) (simp add: property_def)

lemma trackObject_title:
  "trackObject track = Inr obj \<Longrightarrow> get obj ''title'' = get track ''name''"
  by (erule trackObject_Inr) (simp add: property_def)

lemma trackObject_coverArt:
  "trackObject track = Inr obj \<Longrightarrow> get obj ''coverArt'' = trackCoverArt track"
  by (erule trackObject_Inr) (simp add: property_def)

lemma trackObject_keys:
  "trackObject track = Inr obj \<Longrightarrow>
   keys obj = [''id'', ''title'', ''artist'', ''album'', ''coverArt'', ''previewUrl'',
               ''duration'', ''externalUrl'']"
  by (erule trackObject_Inr) simp

lemma releaseObject_title:
  "releaseObject album = Inr obj \<Longrightarrow> get obj ''title'' = get album ''name''"
  by (erule releaseObject_Inr) (simp add: property_def)

lemma releaseObject_coverArt:
  "releaseObject album = Inr obj \<Longrightarrow> get obj ''coverArt'' = releaseCoverArt album"
  by (erule releaseObject_Inr) (simp add: property_def)

lemma preview_callback:
  "(case get track ''preview_url'' of Inl e \<Rightarrow> False | Inr v \<Rightarrow> truthy v) = hasPreviewUrl track"
  by (simp add: hasPreviewUrl_def optionalGet_def split: sum.splits)

lemma playableItem_callback:
  "(case playableItem item of Inl e \<Rightarrow> False | Inr v \<Rightarrow> truthy v) =
     hasPreviewUrl (optionalGet item ''track'')"
proof (cases "get item ''track''")
  case (Inl e)
  then show ?thesis
    by (simp add: playableItem_def hasPreviewUrl_def optionalGet_def)
next
  case (Inr track)
  then show ?thesis
    by (cases track)
      (simp_all add: playableItem_def hasPreviewUrl_def optionalGet_def split: sum.splits)
qed

lemma kept_tracks:
  "arrayFilter (\<lambda>track. get track ''preview_url'') xs = Inr kept \<Longrightarrow>
   kept = filter hasPreviewUrl xs"
  by (drule arrayFilter_Inr) (simp add: preview_callback)

lemma kept_items:
  "arrayFilter playableItem xs = Inr kept \<Longrightarrow>
   kept = filter (\<lambda>item. hasPreviewUrl (optionalGet item ''track'')) xs"
  by (drule arrayFilter_Inr) (simp add: playableItem_callback)

lemma list_all2_source:
  "list_all2 P xs ys \<Longrightarrow> y \<in> set ys \<Longrightarrow> \<exists>x \<in> set xs. P x y"
  by (induction rule: list_all2_induct) auto

lemma normalized_have_preview:
  assumes "list_all2 (\<lambda>x obj. trackObject (f x) = Inr obj) (filter (\<lambda>x. hasPreviewUrl (f x)) xs) out"
  shows "\<forall>obj \<in> set out. truthy (optionalGet obj ''previewUrl'')"
proof
  fix obj assume "obj \<in> set out"
  with list_all2_source [OF assms] obtain x where
    t: "x \<in> set (filter (\<lambda>x. hasPreviewUrl (f x)) xs)" "trackObject (f x) = Inr obj"
    by blast
  then have "hasPreviewUrl (f x)"
    by simp
  from t(2) have "get obj ''previewUrl'' = get (f x) ''preview_url''"
    by (rule trackObject_previewUrl)
  then have "optionalGet obj ''previewUrl'' = optionalGet (f x) ''preview_url''"
    by (simp add: optionalGet_def)
  with \<open>hasPreviewUrl (f x)\<close> show "truthy (optionalGet obj ''previewUrl'')"
    by (simp add: hasPreviewUrl_def)
qed

lemma genreTracks_Inr:
  assumes "genreTracks data = Inr out"
  shows "\<exists>xs. get data ''tracks'' = Inr (Array xs) \<and>
          list_all2 (\<lambda>track obj. trackObject track = Inr obj) (filter hasPreviewUrl xs) out"
proof -
  from assms obtain xs kept where
    "get data ''tracks'' = Inr (Array xs)"
    "arrayFilter (\<lambda>track. get track ''preview_url'') xs = Inr kept"
    "arrayMap trackObject kept = Inr out"
    unfolding genreTracks_def andThen_eq_Inr elements_eq_Inr by blast
  then show ?thesis
    by (auto dest: kept_tracks arrayMap_Inr)
qed

lemma searchTracks_Inr:
  assumes "searchTracks data = Inr out"
  shows "\<exists>tracks xs. get data ''tracks'' = Inr tracks \<and> get tracks ''items'' = Inr (Array xs) \<and>
          list_all2 (\<lambda>track obj. trackObject track = Inr obj) (filter hasPreviewUrl xs) out"
proof -
  from assms obtain tracks xs kept where
    "get data ''tracks'' = Inr tracks" "get tracks ''items'' = Inr (Array xs)"
    "arrayFilter (\<lambda>track. get track ''preview_url'') xs = Inr kept"
    "arrayMap trackObject kept = Inr out"
    unfolding searchTracks_def andThen_eq_Inr elements_eq_Inr by blast
  then show ?thesis
    by (auto dest: kept_tracks arrayMap_Inr)
qed

lemma featuredTracks_Inr:
  assumes "featuredTracks data = Inr out"
  shows "\<exists>xs. get data ''items'' = Inr (Array xs) \<and>
          list_all2 (\<lambda>item obj. trackObject (optionalGet item ''track'') = Inr obj)
            (filter (\<lambda>item. hasPreviewUrl (optionalGet item ''track'')) xs) out"
proof -
  from assms obtain xs kept where parts:
    "get data ''items'' = Inr (Array xs)"
    "arrayFilter playableItem xs = Inr kept"
    "arrayMap (\<lambda>item. andThen (get item ''track'') trackObject) kept = Inr out"
    unfolding featuredTracks_def andThen_eq_Inr elements_eq_Inr by blast
  from parts(3) have "list_all2 (\<lambda>item obj. andThen (get item ''track'') trackObject = Inr obj) kept out"
    by (rule arrayMap_Inr)
  then have "list_all2 (\<lambda>item obj. trackObject (optionalGet item ''track'') = Inr obj) kept out"
    by (rule list_all2_mono) (auto simp: andThen_eq_Inr dest: get_Inr_optionalGet)
  with parts(1) kept_items [OF parts(2)] show ?thesis
    by auto
qed

lemma newReleases_Inr:
  assumes "newReleases data = Inr out"
  shows "\<exists>albums xs. get data ''albums'' = Inr albums \<and> get albums ''items'' = Inr (Array xs) \<and>
          list_all2 (\<lambda>album obj. releaseObject album = Inr obj) xs out"
proof -
  from assms obtain albums xs where
    "get data ''albums'' = Inr albums" "get albums ''items'' = Inr (Array xs)"
    "arrayMap releaseObject xs = Inr out"
    unfolding newReleases_def andThen_eq_Inr elements_eq_Inr by blast
  then show ?thesis
    by (auto dest: arrayMap_Inr)
qed

lemma get_total: "get v k = (if nullish v then Inl TypeError else Inr (optionalGet v k))"
  by (cases v) (simp_all add: optionalGet_def)

lemma arrayMap_same:
  "(\<And>x. x \<in> set xs \<Longrightarrow> f x = g x) \<Longrightarrow> arrayMap f xs = arrayMap g xs"
  by (induction xs) simp_all

lemma arrayFilter_total:
  assumes "\<And>x. x \<in> set xs \<Longrightarrow> p x = (if nullish x then Inl TypeError else Inr (w x))"
  shows "arrayFilter p xs =
           (if \<exists>x \<in> set xs. nullish x then Inl TypeError
            else Inr (filter (\<lambda>x. truthy (w x)) xs))"
  using assms by (induction xs) simp_all

lemma playableItem_total:
  "playableItem item =
     (if nullish item then Inl TypeError
      else Inr (if truthy (optionalGet item ''track'')
                then optionalGet (optionalGet item ''track'') ''preview_url''
                else optionalGet item ''track''))"
proof (cases "nullish item")
  case True
  then show ?thesis by (simp add: playableItem_def get_total)
next
  case False
  have "\<not> nullish t" if "truthy t" for t
    using that by (cases t) simp_all
  with False show ?thesis
    by (simp add: playableItem_def get_total)
qed

lemma playable_iff:
  "truthy (if truthy t then optionalGet t ''preview_url'' else t) = hasPreviewUrl t"
  by (cases t) (simp_all add: hasPreviewUrl_def optionalGet_def)

lemma kept_tracks_total:
  "arrayFilter (\<lambda>track. get track ''preview_url'') xs =
     (if \<exists>t \<in> set xs. nullish t then Inl TypeError else Inr (filter hasPreviewUrl xs))"
  using arrayFilter_total [of xs "\<lambda>track. get track ''preview_url''"
      "\<lambda>track. optionalGet track ''preview_url''"]
  by (simp add: get_total hasPreviewUrl_def [abs_def])

lemma kept_items_total:
  "arrayFilter playableItem xs =
     (if \<exists>item \<in> set xs. nullish item then Inl TypeError
      else Inr (filter (\<lambda>item. hasPreviewUrl (optionalGet item ''track'')) xs))"
  using arrayFilter_total [of xs playableItem
      "\<lambda>item. if truthy (optionalGet item ''track'')
              then optionalGet (optionalGet item ''track'') ''preview_url''
              else optionalGet item ''track''"]
  by (simp add: playableItem_total playable_iff)

lemma genreTracks_total:
  "get data ''tracks'' = Inr (Array xs) \<Longrightarrow>
   genreTracks data =
     (if \<exists>t \<in> set xs. nullish t then Inl TypeError
      else arrayMap trackObject (filter hasPreviewUrl xs))"
  by (simp add: genreTracks_def kept_tracks_total)

lemma searchTracks_total:
  "get data ''tracks'' = Inr tracks \<Longrightarrow> get tracks ''items'' = Inr (Array xs) \<Longrightarrow>
   searchTracks data =
     (if \<exists>t \<in> set xs. nullish t then Inl TypeError
      else arrayMap trackObject (filter hasPreviewUrl xs))"
  by (simp add: searchTracks_def kept_tracks_total)

lemma featuredTracks_total:
  assumes "get data ''items'' = Inr (Array xs)"
  shows "featuredTracks data =
     (if \<exists>item \<in> set xs. nullish item then Inl TypeError
      else arrayMap (\<lambda>item. trackObject (optionalGet item ''track''))
             (filter (\<lambda>item. hasPreviewUrl (optionalGet item ''track'')) xs))"
proof (cases "\<exists>item \<in> set xs. nullish item")
  case True
  with assms show ?thesis
    by (simp add: featuredTracks_def kept_items_total)
next
  case False
  then have "arrayMap (\<lambda>item. andThen (get item ''track'') trackObject)
               (filter (\<lambda>item. hasPreviewUrl (optionalGet item ''track'')) xs) =
             arrayMap (\<lambda>item. trackObject (optionalGet item ''track''))
               (filter (\<lambda>item. hasPreviewUrl (optionalGet item ''track'')) xs)"
    by (intro arrayMap_same) (auto simp: get_total)
  with assms False show ?thesis
    by (simp add: featuredTracks_def kept_items_total)
qed

lemma newReleases_total:
  "get data ''albums'' = Inr albums \<Longrightarrow> get albums ''items'' = Inr (Array xs) \<Longrightarrow>
   newReleases data = arrayMap releaseObject xs"
  by (simp add: newReleases_def)

lemma playableItem_falsy:
  assumes "\<not> nullish item" "\<not> hasPreviewUrl (optionalGet item ''track'')"
  shows "\<exists>v. playableItem item = Inr v \<and> \<not> truthy v"
  using assms by (simp add: playableItem_total playable_iff)

lemma preview_falsy:
  assumes "\<not> nullish track" "\<not> hasPreviewUrl track"
  shows "\<exists>v. get track ''preview_url'' = Inr v \<and> \<not> truthy v"
  using assms by (simp add: get_total hasPreviewUrl_def)

lemma genreTracks_drop:
  assumes "\<not> nullish t" "\<not> hasPreviewUrl t"
    and "get data ''tracks'' = Inr (Array (xs @ t # ys))"
    and "get data' ''tracks'' = Inr (Array (xs @ ys))"
  shows "genreTracks data = genreTracks data'"
proof -
  from preview_falsy [OF assms(1,2)] obtain v where "get t ''preview_url'' = Inr v" "\<not> truthy v"
    by blast
  then have "arrayFilter (\<lambda>track. get track ''preview_url'') (xs @ t # ys) =
      arrayFilter (\<lambda>track. get track ''preview_url'') (xs @ ys)"
    using arrayFilter_insert_falsy [where p = "\<lambda>track. get track ''preview_url''" and x = t]
    by simp
  then show ?thesis
    unfolding genreTracks_def assms(3,4) by simp
qed

lemma searchTracks_drop:
  assumes "\<not> nullish t" "\<not> hasPreviewUrl t"
    and "get data ''tracks'' = Inr tracks" "get tracks ''items'' = Inr (Array (xs @ t # ys))"
    and "get data' ''tracks'' = Inr tracks'" "get tracks' ''items'' = Inr (Array (xs @ ys))"
  shows "searchTracks data = searchTracks data'"
proof -
  from preview_falsy [OF assms(1,2)] obtain v where "get t ''preview_url'' = Inr v" "\<not> truthy v"
    by blast
  then have "arrayFilter (\<lambda>track. get track ''preview_url'') (xs @ t # ys) =
      arrayFilter (\<lambda>track. get track ''preview_url'') (xs @ ys)"
    using arrayFilter_insert_falsy [where p = "\<lambda>track. get track ''preview_url''" and x = t]
    by simp
  then show ?thesis
    unfolding searchTracks_def assms(3,5) andThen_simps assms(4,6) by simp
qed

lemma featuredTracks_drop:
  assumes "\<not> nullish item" "\<not> hasPreviewUrl (optionalGet item ''track'')"
    and "get data ''items'' = Inr (Array (xs @ item # ys))"
    and "get data' ''items'' = Inr (Array (xs @ ys))"
  shows "featuredTracks data = featuredTracks data'"
proof -
  from playableItem_falsy [OF assms(1,2)] obtain v where "playableItem item = Inr v" "\<not> truthy v"
    by blast
  then have "arrayFilter playableItem (xs @ item # ys) = arrayFilter playableItem (xs @ ys)"
    using arrayFilter_insert_falsy [where p = playableItem and x = item] by simp
  then show ?thesis
    unfolding featuredTracks_def assms(3,4) by simp
qed

lemma outputs_have_preview:
  assumes "genreTracks data = Inr out \<or> searchTracks data = Inr out \<or> featuredTracks data = Inr out"
  shows "\<forall>obj \<in> set out. truthy (optionalGet obj ''previewUrl'')"
proof -
  from assms consider "genreTracks data = Inr out" | "searchTracks data = Inr out"
    | "featuredTracks data = Inr out"
    by blast
  then show ?thesis
  proof cases
    case 1
    from genreTracks_Inr [OF this] obtain zs where
      "list_all2 (\<lambda>track obj. trackObject track = Inr obj) (filter hasPreviewUrl zs) out"
      by blast
    then show ?thesis
      by (rule normalized_have_preview [where f = "\<lambda>x. x"])
  next
    case 2
    from searchTracks_Inr [OF this] obtain tracks zs where
      "list_all2 (\<lambda>track obj. trackObject track = Inr obj) (filter hasPreviewUrl zs) out"
      by blast
    then show ?thesis
      by (rule normalized_have_preview [where f = "\<lambda>x. x"])
  next
    case 3
    from featuredTracks_Inr [OF this] obtain zs where
      "list_all2 (\<lambda>item obj. trackObject (optionalGet item ''track'') = Inr obj)
         (filter (\<lambda>item. hasPreviewUrl (optionalGet item ''track'')) zs) out"
      by blast
    then show ?thesis
      by (rule normalized_have_preview [where f = "\<lambda>item. optionalGet item ''track''"])
  qed
qed

lemma newReleases_all:
  assumes "get data ''albums'' = Inr albums" "get albums ''items'' = Inr (Array zs)"
    and "newReleases data = Inr out"
  shows "length out = length zs \<and> list_all2 (\<lambda>album obj. releaseObject album = Inr obj) zs out"
proof -
  from assms have "arrayMap releaseObject zs = Inr out"
    by (simp add: newReleases_total)
  then have "list_all2 (\<lambda>album obj. releaseObject album = Inr obj) zs out"
    by (rule arrayMap_Inr)
  then show ?thesis
    by (simp add: list_all2_lengthD)
qed

text \<open>
  \<^bold>\<open>C6.\<close>  In each of the three track-producing handlers (recommendations, search,
  playlist tracks) an item lacking a preview audio URL is dropped entirely: with such an
  item anywhere in the list the handler yields exactly what it yields without it, the same
  output or the same failure.  For every input list, the handler's result is the
  normalization, in order, of exactly the items that have a preview URL (and a
  \<^verbatim>\<open>TypeError\<close> when an element of the list is itself \<^verbatim>\<open>null\<close>), and every
  normalized object in an output carries a preview URL.  The new-releases handler filters
  nothing: its result is the normalization of every input album, so an output has one
  object for each of them.
\<close>

theorem items_without_preview_dropped:
  "(\<not> nullish t \<and> \<not> hasPreviewUrl t \<longrightarrow>
      (get data ''tracks'' = Inr (Array (xs @ t # ys)) \<and>
       get data' ''tracks'' = Inr (Array (xs @ ys)) \<longrightarrow>
         genreTracks data = genreTracks data') \<and>
      (get data ''tracks'' = Inr tracks \<and> get tracks ''items'' = Inr (Array (xs @ t # ys)) \<and>
       get data' ''tracks'' = Inr tracks' \<and> get tracks' ''items'' = Inr (Array (xs @ ys)) \<longrightarrow>
         searchTracks data = searchTracks data'))
   \<and> (\<not> nullish item \<and> \<not> hasPreviewUrl (optionalGet item ''track'') \<and>
       get data ''items'' = Inr (Array (xs @ item # ys)) \<and>
       get data' ''items'' = Inr (Array (xs @ ys)) \<longrightarrow>
         featuredTracks data = featuredTracks data')
   \<and> (get data ''tracks'' = Inr (Array zs) \<longrightarrow>
         genreTracks data =
           (if \<exists>x \<in> set zs. nullish x then Inl TypeError
            else arrayMap trackObject (filter hasPreviewUrl zs)))
   \<and> (get data ''tracks'' = Inr tracks \<and> get tracks ''items'' = Inr (Array zs) \<longrightarrow>
         searchTracks data =
           (if \<exists>x \<in> set zs. nullish x then Inl TypeError
            else arrayMap trackObject (filter hasPreviewUrl zs)))
   \<and> (get data ''items'' = Inr (Array zs) \<longrightarrow>
         featuredTracks data =
           (if \<exists>x \<in> set zs. nullish x then Inl TypeError
            else arrayMap (\<lambda>x. trackObject (optionalGet x ''track''))
                   (filter (\<lambda>x. hasPreviewUrl (optionalGet x ''track'')) zs)))
   \<and> (genreTracks data = Inr out \<or> searchTracks data = Inr out \<or> featuredTracks data = Inr out
         \<longrightarrow> (\<forall>obj \<in> set out. truthy (optionalGet obj ''previewUrl'')))
   \<and> (get data ''albums'' = Inr albums \<and> get albums ''items'' = Inr (Array zs) \<longrightarrow>
         newReleases data = arrayMap releaseObject zs \<and>
         (\<forall>out. newReleases data = Inr out \<longrightarrow>
            length out = length zs \<and>
            list_all2 (\<lambda>album obj. releaseObject album = Inr obj) zs out))"
proof (intro conjI impI allI)
  assume "\<not> nullish t \<and> \<not> hasPreviewUrl t"
    and "get data ''tracks'' = Inr (Array (xs @ t # ys)) \<and>
         get data' ''tracks'' = Inr (Array (xs @ ys))"
  then show "genreTracks data = genreTracks data'"
    using genreTracks_drop [of t data xs ys data'] by simp
next
  assume "\<not> nullish t \<and> \<not> hasPreviewUrl t"
    and "get data ''tracks'' = Inr tracks \<and> get tracks ''items'' = Inr (Array (xs @ t # ys)) \<and>
         get data' ''tracks'' = Inr tracks' \<and> get tracks' ''items'' = Inr (Array (xs @ ys))"
  then show "searchTracks data = searchTracks data'"
    using searchTracks_drop [of t data tracks xs ys data' tracks'] by simp
next
  assume "\<not> nullish item \<and> \<not> hasPreviewUrl (optionalGet item ''track'') \<and>
       get data ''items'' = Inr (Array (xs @ item # ys)) \<and>
       get data' ''items'' = Inr (Array (xs @ ys))"
  then show "featuredTracks data = featuredTracks data'"
    using featuredTracks_drop [of item data xs ys data'] by simp
next
  assume "get data ''tracks'' = Inr (Array zs)"
  then show "genreTracks data =
           (if \<exists>x \<in> set zs. nullish x then Inl TypeError
            else arrayMap trackObject (filter hasPreviewUrl zs))"
    by (rule genreTracks_total)
next
  assume "get data ''tracks'' = Inr tracks \<and> get tracks ''items'' = Inr (Array zs)"
  then have "get data ''tracks'' = Inr tracks" "get tracks ''items'' = Inr (Array zs)"
    by simp_all
  then show "searchTracks data =
           (if \<exists>x \<in> set zs. nullish x then Inl TypeError
            else arrayMap trackObject (filter hasPreviewUrl zs))"
    by (rule searchTracks_total)
next
  assume "get data ''items'' = Inr (Array zs)"
  then show "featuredTracks data =
           (if \<exists>x \<in> set zs. nullish x then Inl TypeError
            else arrayMap (\<lambda>x. trackObject (optionalGet x ''track''))
                   (filter (\<lambda>x. hasPreviewUrl (optionalGet x ''track'')) zs))"
    by (rule featuredTracks_total)
next
  assume "genreTracks data = Inr out \<or> searchTracks data = Inr out \<or> featuredTracks data = Inr out"
  then show "\<forall>obj \<in> set out. truthy (optionalGet obj ''previewUrl'')"
    by (rule outputs_have_preview)
next
  assume "get data ''albums'' = Inr albums \<and> get albums ''items'' = Inr (Array zs)"
  then have "get data ''albums'' = Inr albums" "get albums ''items'' = Inr (Array zs)"
    by simp_all
  then show "newReleases data = arrayMap releaseObject zs"
    by (rule newReleases_total)
next
  fix out'
  assume "get data ''albums'' = Inr albums \<and> get albums ''items'' = Inr (Array zs)"
    and "newReleases data = Inr out'"
  then show "length out' = length zs"
    using newReleases_all [of data albums zs out'] by simp
next
  fix out'
  assume "get data ''albums'' = Inr albums \<and> get albums ''items'' = Inr (Array zs)"
    and "newReleases data = Inr out'"
  then show "list_all2 (\<lambda>album obj. releaseObject album = Inr obj) zs out'"
    using newReleases_all [of data albums zs out'] by simp
qed

text \<open>
  \<^bold>\<open>C10.\<close>  A playlist item whose \<^verbatim>\<open>track\<close> is \<^verbatim>\<open>null\<close> or absent
  contributes nothing to the featured-tracks normalization: with the item anywhere in the
  list, the handler produces exactly what it produces without it, the same output or the
  same failure, so the item is left out and reading it raises no error.
\<close>

theorem null_track_items_excluded:
  assumes "get item ''track'' = Inr track" and "track = Null \<or> track = Undefined"
    and "get playlistTracks ''items'' = Inr (Array (xs @ item # ys))"
    and "get playlistTracks' ''items'' = Inr (Array (xs @ ys))"
  shows "featuredTracks playlistTracks = featuredTracks playlistTracks'"
proof -
  have "playableItem item = Inr track" "\<not> truthy track"
    using assms(1,2) by (auto simp: playableItem_def)
  then have "arrayFilter playableItem (xs @ item # ys) = arrayFilter playableItem (xs @ ys)"
    by (rule arrayFilter_insert_falsy)
  then show ?thesis
    using assms(3,4) by (simp add: featuredTracks_def)
qed

lemmas normalizer_defs =
  featuredTracks_def genreTracks_def searchTracks_def newReleases_def playableItem_def
  trackObject_def releaseObject_def artistNames_def trackCoverArt_def releaseCoverArt_def
  albumImageUrl_def releaseImageUrl_def imageUrl_def orElse_def optionalGet_def property_def
  arrayJoin_def

lemmas sample_defs =
  sampleTrack_def sampleRecommendations_def sampleSearch_def samplePlaylist_def
  sampleNormalizedTrack_def sampleAlbum_def sampleImages_def sampleNewReleases_def
  sampleNormalizedRelease_def

lemma sample_genreTracks: "genreTracks sampleRecommendations = Inr [sampleNormalizedTrack]"
  by (simp add: normalizer_defs sample_defs)

lemma sample_searchTracks: "searchTracks sampleSearch = Inr [sampleNormalizedTrack]"
  by (simp add: normalizer_defs sample_defs)

lemma sample_featuredTracks: "featuredTracks samplePlaylist = Inr [sampleNormalizedTrack]"
  by (simp add: normalizer_defs sample_defs)

lemma sample_newReleases:
  "newReleases sampleNewReleases = Inr [sampleNormalizedRelease (String ''S'')]"
  by (simp add: normalizer_defs sample_defs)

theorem items_without_preview_dropped_witness:
  "genreTracks sampleRecommendations =
     genreTracks (Object [(''tracks'', Array [sampleTrack ''Y'' (String ''p'')])])
   \<and> searchTracks sampleSearch =
     searchTracks (Object [(''tracks'', Object [(''items'', Array [sampleTrack ''Y'' (String ''p'')])])])
   \<and> featuredTracks samplePlaylist =
     featuredTracks (Object [(''items'', Array [Object [(''track'', Null)],
                                Object [(''track'', sampleTrack ''Y'' (String ''p''))]])])
   \<and> genreTracks sampleRecommendations =
     arrayMap trackObject
       (filter hasPreviewUrl [sampleTrack ''X'' Null, sampleTrack ''Y'' (String ''p'')])
   \<and> searchTracks sampleSearch =
     arrayMap trackObject
       (filter hasPreviewUrl [sampleTrack ''X'' (String []), sampleTrack ''Y'' (String ''p'')])
   \<and> featuredTracks samplePlaylist =
     arrayMap (\<lambda>x. trackObject (optionalGet x ''track''))
       (filter (\<lambda>x. hasPreviewUrl (optionalGet x ''track''))
          [Object [(''track'', Null)], Object [(''track'', sampleTrack ''X'' Null)],
           Object [(''track'', sampleTrack ''Y'' (String ''p''))]])
   \<and> genreTracks sampleRecommendations = Inr [sampleNormalizedTrack]
   \<and> truthy (optionalGet sampleNormalizedTrack ''previewUrl'')
   \<and> newReleases sampleNewReleases = arrayMap releaseObject [sampleAlbum sampleImages]
   \<and> length [sampleNormalizedRelease (String ''S'')] = length [sampleAlbum sampleImages]"
proof -
  note dropped = items_without_preview_dropped
  have lacking: "\<not> nullish (sampleTrack ''X'' v) \<and> \<not> hasPreviewUrl (sampleTrack ''X'' v)"
    if "\<not> truthy v" for v
    using that by (simp add: sampleTrack_def hasPreviewUrl_def optionalGet_def property_def)
  have genre_drop: "genreTracks sampleRecommendations =
     genreTracks (Object [(''tracks'', Array [sampleTrack ''Y'' (String ''p'')])])"
    using dropped [where t = "sampleTrack ''X'' Null" and data = sampleRecommendations and xs = "[]"
        and ys = "[sampleTrack ''Y'' (String ''p'')]"
        and data' = "Object [(''tracks'', Array [sampleTrack ''Y'' (String ''p'')])]",
        THEN conjunct1] lacking [of Null]
    by (simp add: sampleRecommendations_def property_def)
  have search_drop: "searchTracks sampleSearch =
     searchTracks (Object [(''tracks'', Object [(''items'', Array [sampleTrack ''Y'' (String ''p'')])])])"
    using dropped [where t = "sampleTrack ''X'' (String [])" and data = sampleSearch and xs = "[]"
        and ys = "[sampleTrack ''Y'' (String ''p'')]"
        and tracks = "Object [(''items'',
              Array [sampleTrack ''X'' (String []), sampleTrack ''Y'' (String ''p'')])]"
        and data' = "Object [(''tracks'', Object [(''items'', Array [sampleTrack ''Y'' (String ''p'')])])]"
        and tracks' = "Object [(''items'', Array [sampleTrack ''Y'' (String ''p'')])]",
        THEN conjunct1] lacking [of "String []"]
    by (simp add: sampleSearch_def property_def)
  have featured_drop: "featuredTracks samplePlaylist =
     featuredTracks (Object [(''items'', Array [Object [(''track'', Null)],
                                Object [(''track'', sampleTrack ''Y'' (String ''p''))]])])"
    using dropped [where item = "Object [(''track'', sampleTrack ''X'' Null)]" and data = samplePlaylist
        and xs = "[Object [(''track'', Null)]]"
        and ys = "[Object [(''track'', sampleTrack ''Y'' (String ''p''))]]"
        and data' = "Object [(''items'', Array [Object [(''track'', Null)],
                                Object [(''track'', sampleTrack ''Y'' (String ''p''))]])]",
        THEN conjunct2, THEN conjunct1] lacking [of Null]
    by (simp add: samplePlaylist_def optionalGet_def property_def)
  have genre_all: "genreTracks sampleRecommendations =
     arrayMap trackObject
       (filter hasPreviewUrl [sampleTrack ''X'' Null, sampleTrack ''Y'' (String ''p'')])"
    using dropped [where data = sampleRecommendations
        and zs = "[sampleTrack ''X'' Null, sampleTrack ''Y'' (String ''p'')]",
        THEN conjunct2, THEN conjunct2, THEN conjunct1]
    by (simp add: sampleRecommendations_def sampleTrack_def property_def)
  have search_all: "searchTracks sampleSearch =
     arrayMap trackObject
       (filter hasPreviewUrl [sampleTrack ''X'' (String []), sampleTrack ''Y'' (String ''p'')])"
    using dropped [where data = sampleSearch
        and tracks = "Object [(''items'',
              Array [sampleTrack ''X'' (String []), sampleTrack ''Y'' (String ''p'')])]"
        and zs = "[sampleTrack ''X'' (String []), sampleTrack ''Y'' (String ''p'')]",
        THEN conjunct2, THEN conjunct2, THEN conjunct2, THEN conjunct1]
    by (simp add: sampleSearch_def sampleTrack_def property_def)
  have featured_all: "featuredTracks samplePlaylist =
     arrayMap (\<lambda>x. trackObject (optionalGet x ''track''))
       (filter (\<lambda>x. hasPreviewUrl (optionalGet x ''track''))
          [Object [(''track'', Null)], Object [(''track'', sampleTrack ''X'' Null)],
           Object [(''track'', sampleTrack ''Y'' (String ''p''))]])"
    using dropped [where data = samplePlaylist
        and zs = "[Object [(''track'', Null)], Object [(''track'', sampleTrack ''X'' Null)],
           Object [(''track'', sampleTrack ''Y'' (String ''p''))]]",
        THEN conjunct2, THEN conjunct2, THEN conjunct2, THEN conjunct2, THEN conjunct1]
    by (simp add: samplePlaylist_def property_def)
  have preview: "truthy (optionalGet sampleNormalizedTrack ''previewUrl'')"
    using dropped [where data = sampleRecommendations and out = "[sampleNormalizedTrack]",
        THEN conjunct2, THEN conjunct2, THEN conjunct2, THEN conjunct2, THEN conjunct2,
        THEN conjunct1] sample_genreTracks
    by simp
  have releases: "newReleases sampleNewReleases = arrayMap releaseObject [sampleAlbum sampleImages]
      \<and> length [sampleNormalizedRelease (String ''S'')] = length [sampleAlbum sampleImages]"
    using dropped [where data = sampleNewReleases
        and albums = "Object [(''items'', Array [sampleAlbum sampleImages])]"
        and zs = "[sampleAlbum sampleImages]",
        THEN conjunct2, THEN conjunct2, THEN conjunct2, THEN conjunct2, THEN conjunct2,
        THEN conjunct2] sample_newReleases
    by (simp add: sampleNewReleases_def property_def)
  from genre_drop search_drop featured_drop genre_all search_all featured_all preview releases
    sample_genreTracks
  show ?thesis
    by (intro conjI) simp_all
qed

theorem null_track_items_excluded_witness:
  "featuredTracks samplePlaylist =
     featuredTracks (Object [(''items'', Array [Object [(''track'', sampleTrack ''X'' Null)],
                                Object [(''track'', sampleTrack ''Y'' (String ''p''))]])])
   \<and> featuredTracks samplePlaylist = Inr [sampleNormalizedTrack]"
  using null_track_items_excluded
    [of "Object [(''track'', Null)]" Null samplePlaylist "[]"
        "[Object [(''track'', sampleTrack ''X'' Null)],
          Object [(''track'', sampleTrack ''Y'' (String ''p''))]]"
        "Object [(''items'', Array [Object [(''track'', sampleTrack ''X'' Null)],
                                Object [(''track'', sampleTrack ''Y'' (String ''p''))]])]"]
    sample_featuredTracks
  by (simp add: samplePlaylist_def property_def)

lemma imageUrl_Array: "imageUrl (Array xs) i = Inr (urlAt xs i)"
  by (simp add: imageUrl_def urlAt_def optionalGet_def)

lemma releaseCoverArt_images:
  "get album ''images'' = Inr (Array xs) \<Longrightarrow>
   releaseCoverArt album =
     Inr (if truthy (urlAt xs 2) then urlAt xs 2
          else if truthy (urlAt xs 1) then urlAt xs 1 else urlAt xs 0)"
  by (simp add: releaseCoverArt_def releaseImageUrl_def imageUrl_Array orElse_def)

lemma trackCoverArt_images:
  "get track ''album'' = Inr album \<Longrightarrow> get album ''images'' = Inr (Array xs) \<Longrightarrow>
   trackCoverArt track =
     Inr (if truthy (urlAt xs 2) then urlAt xs 2
          else if truthy (urlAt xs 1) then urlAt xs 1 else urlAt xs 0)"
  by (cases album) (simp_all add: trackCoverArt_def albumImageUrl_def imageUrl_Array orElse_def)

lemma keys_resJson:
  "k \<in> set (keys (resJson (Object kvs))) \<longleftrightarrow> (\<exists>v. (k, v) \<in> set kvs \<and> v \<noteq> Undefined)"
  by (force simp: image_iff)

lemma undefined_coverArt_omitted:
  assumes "releaseObject album = Inr obj \<or> trackObject track = Inr obj"
    and "get obj ''coverArt'' = Inr Undefined"
  shows "''coverArt'' \<notin> set (keys (resJson obj))"
  using assms
  by (auto elim!: releaseObject_Inr trackObject_Inr simp: property_def keys_resJson
           simp del: resJson.simps)

text \<open>
  \<^bold>\<open>C7\<close> (as amended).  For a normalized release or track whose album has the image
  descriptors \<open>xs\<close>, \<^verbatim>\<open>coverArt\<close> is the first truthy URL in the order index 2,
  index 1, and otherwise the URL at index 0.  So with at least three descriptors it is the
  URL at index 2 provided that URL is non-empty, with exactly two it is the URL at index 1
  provided that URL is non-empty, with exactly one it is the URL at index 0, and with none it
  is \<^verbatim>\<open>undefined\<close>, which the JSON response leaves out.
\<close>

theorem cover_art_selection:
  assumes images: "get album ''images'' = Inr (Array xs)"
    and item: "releaseObject album = Inr obj \<or>
               (get track ''album'' = Inr album \<and> trackObject track = Inr obj)"
  shows "get obj ''coverArt'' =
           Inr (if truthy (urlAt xs 2) then urlAt xs 2
                else if truthy (urlAt xs 1) then urlAt xs 1 else urlAt xs 0)
       \<and> (3 \<le> length xs \<and> truthy (optionalGet (xs ! 2) ''url'') \<longrightarrow>
            get obj ''coverArt'' = Inr (optionalGet (xs ! 2) ''url''))
       \<and> (length xs = 2 \<and> truthy (optionalGet (xs ! 1) ''url'') \<longrightarrow>
            get obj ''coverArt'' = Inr (optionalGet (xs ! 1) ''url''))
       \<and> (length xs = 1 \<longrightarrow> get obj ''coverArt'' = Inr (optionalGet (xs ! 0) ''url''))
       \<and> (length xs = 0 \<longrightarrow>
            get obj ''coverArt'' = Inr Undefined \<and> ''coverArt'' \<notin> set (keys (resJson obj)))"
proof -
  have art: "get obj ''coverArt'' =
      Inr (if truthy (urlAt xs 2) then urlAt xs 2
           else if truthy (urlAt xs 1) then urlAt xs 1 else urlAt xs 0)"
    using item images
    by (auto simp: releaseObject_coverArt releaseCoverArt_images
                   trackObject_coverArt trackCoverArt_images)
  have omitted: "''coverArt'' \<notin> set (keys (resJson obj))" if "get obj ''coverArt'' = Inr Undefined"
    using item that undefined_coverArt_omitted [of album obj track] by blast
  show ?thesis
    using art omitted by (auto simp: urlAt_def)
qed

lemmas more_sample_defs =
  sampleImagesEmptyUrl_def sampleNamelessTrack_def sampleNormalizedNameless_def

lemma sample_releaseObject:
  "releaseObject (sampleAlbum sampleImages) = Inr (sampleNormalizedRelease (String ''S''))"
  by (simp add: normalizer_defs sample_defs)

lemma sample_nameless: "trackObject sampleNamelessTrack = Inr sampleNormalizedNameless"
  by (simp add: normalizer_defs more_sample_defs)

theorem cover_art_selection_witness:
  "get (sampleNormalizedRelease (String ''S'')) ''coverArt'' = Inr (String ''S'')
   \<and> get (sampleNormalizedRelease (String ''M'')) ''coverArt'' = Inr (String ''M'')
   \<and> get (sampleNormalizedRelease (String ''L'')) ''coverArt'' = Inr (String ''L'')
   \<and> get sampleNormalizedNameless ''coverArt'' = Inr Undefined
   \<and> ''coverArt'' \<notin> set (keys (resJson sampleNormalizedNameless))"
proof -
  have images: "get (sampleAlbum xs) ''images'' = Inr (Array xs)" for xs
    by (simp add: sampleAlbum_def property_def)
  have two: "releaseObject (sampleAlbum (take 2 sampleImages)) =
      Inr (sampleNormalizedRelease (String ''M''))"
    by (simp add: normalizer_defs sample_defs)
  have one: "releaseObject (sampleAlbum (take 1 sampleImages)) =
      Inr (sampleNormalizedRelease (String ''L''))"
    by (simp add: normalizer_defs sample_defs)
  from cover_art_selection [OF images, of sampleImages "sampleNormalizedRelease (String ''S'')" Undefined]
    sample_releaseObject
  have "get (sampleNormalizedRelease (String ''S'')) ''coverArt'' = Inr (String ''S'')"
    by (simp add: sampleImages_def urlAt_def optionalGet_def property_def)
  moreover
  from cover_art_selection
    [OF images, of "take 2 sampleImages" "sampleNormalizedRelease (String ''M'')" Undefined] two
  have "get (sampleNormalizedRelease (String ''M'')) ''coverArt'' = Inr (String ''M'')"
    by (simp add: sampleImages_def urlAt_def optionalGet_def property_def)
  moreover
  from cover_art_selection
    [OF images, of "take 1 sampleImages" "sampleNormalizedRelease (String ''L'')" Undefined] one
  have "get (sampleNormalizedRelease (String ''L'')) ''coverArt'' = Inr (String ''L'')"
    by (simp add: sampleImages_def urlAt_def optionalGet_def property_def)
  moreover
  have "get (Object [(''name'', String ''LP''), (''images'', Array [])]) ''images'' = Inr (Array [])"
    by (simp add: property_def)
  from cover_art_selection [OF this, of sampleNormalizedNameless sampleNamelessTrack]
    sample_nameless
  have "get sampleNormalizedNameless ''coverArt'' = Inr Undefined
      \<and> ''coverArt'' \<notin> set (keys (resJson sampleNormalizedNameless))"
    by (simp add: sampleNamelessTrack_def urlAt_def property_def)
  ultimately show ?thesis
    by simp
qed

text \<open>
  \<^bold>\<open>C7\<close> as stated fails when the URL at the preferred index is empty: for three
  descriptors with the URLs \<^verbatim>\<open>L\<close>, \<^verbatim>\<open>M\<close> and the empty string,
  \<^verbatim>\<open>coverArt\<close> is \<^verbatim>\<open>M\<close>, not the URL at index 2.
\<close>

theorem empty_url_skipped_counterexample:
  "get (sampleAlbum sampleImagesEmptyUrl) ''images'' = Inr (Array sampleImagesEmptyUrl)
   \<and> length sampleImagesEmptyUrl = 3
   \<and> optionalGet (sampleImagesEmptyUrl ! 2) ''url'' = String []
   \<and> releaseObject (sampleAlbum sampleImagesEmptyUrl) = Inr (sampleNormalizedRelease (String ''M''))
   \<and> get (sampleNormalizedRelease (String ''M'')) ''coverArt'' = Inr (String ''M'')
   \<and> get (sampleNormalizedRelease (String ''M'')) ''coverArt'' \<noteq>
       Inr (optionalGet (sampleImagesEmptyUrl ! 2) ''url'')"
  by (simp add: normalizer_defs sample_defs more_sample_defs)

lemma commonTags_not_nullish: "commonTags meta = Inr c \<Longrightarrow> \<not> nullish c"
  by (auto simp: commonTags_def andThen_eq_Inr split: if_splits)

lemma formatInfo_not_nullish: "formatInfo probe meta = Inr f \<Longrightarrow> \<not> nullish f"
  by (auto simp: formatInfo_def andThen_eq_Inr split: if_splits)

lemma get_not_nullish: "\<not> nullish v \<Longrightarrow> get v k = Inr (optionalGet v k)"
  by (cases v) (simp_all add: optionalGet_def)

text \<open>
  \<^bold>\<open>C8\<close> (as amended).  The catalog normalizer applies no title fallback: the title
  of a normalized track or release is the upstream \<^verbatim>\<open>name\<close>, whatever it is.  The
  fallback is the metadata extractor's: its title is the tag parser's common title when that
  is truthy, otherwise the probe format's \<^verbatim>\<open>tags.title\<close> when that is truthy,
  otherwise the literal \<^verbatim>\<open>Untitled\<close>.
\<close>

theorem title_sources:
  "(trackObject track = Inr obj \<longrightarrow> get obj ''title'' = get track ''name'')
   \<and> (releaseObject album = Inr obj \<longrightarrow> get obj ''title'' = get album ''name'')
   \<and> (commonTags meta = Inr c \<and> formatInfo probe meta = Inr f \<longrightarrow>
        extractedTitle probe meta =
          Inr (if truthy (optionalGet c ''title'') then optionalGet c ''title''
               else if truthy (optionalGet (optionalGet f ''tags'') ''title'')
                 then optionalGet (optionalGet f ''tags'') ''title''
               else String ''Untitled''))"
proof (intro conjI impI)
  assume "trackObject track = Inr obj"
  then show "get obj ''title'' = get track ''name''"
    by (rule trackObject_title)
next
  assume "releaseObject album = Inr obj"
  then show "get obj ''title'' = get album ''name''"
    by (rule releaseObject_title)
next
  assume "commonTags meta = Inr c \<and> formatInfo probe meta = Inr f"
  then have cf: "commonTags meta = Inr c" "formatInfo probe meta = Inr f"
    by simp_all
  from cf(1) have "get c ''title'' = Inr (optionalGet c ''title'')"
    by (intro get_not_nullish commonTags_not_nullish)
  moreover from cf(2) have "get f ''tags'' = Inr (optionalGet f ''tags'')"
    by (intro get_not_nullish formatInfo_not_nullish)
  ultimately show "extractedTitle probe meta =
          Inr (if truthy (optionalGet c ''title'') then optionalGet c ''title''
               else if truthy (optionalGet (optionalGet f ''tags'') ''title'')
                 then optionalGet (optionalGet f ''tags'') ''title''
               else String ''Untitled'')"
    using cf by (simp add: extractedTitle_def orElse_def)
qed

theorem title_sources_witness:
  "trackObject sampleNamelessTrack = Inr sampleNormalizedNameless
   \<and> get sampleNormalizedNameless ''title'' = get sampleNamelessTrack ''name''
   \<and> get (sampleNormalizedRelease (String ''S'')) ''title'' = get (sampleAlbum sampleImages) ''name''
   \<and> extractedTitle (sampleProbe (Object [(''title'', String ''From tags'')]))
        (sampleMeta (String ''Song'')) = Inr (String ''Song'')
   \<and> extractedTitle (sampleProbe (Object [(''title'', String ''From tags'')]))
        (sampleMeta (String [])) = Inr (String ''From tags'')
   \<and> extractedTitle (sampleProbe Undefined) (sampleMeta Undefined) = Inr (String ''Untitled'')"
proof -
  have c: "commonTags (sampleMeta t) = Inr (Object [(''title'', t), (''artist'', String ''A'')])" for t
    by (simp add: commonTags_def sampleMeta_def property_def)
  have f: "formatInfo (sampleProbe tags) (sampleMeta t) =
      Inr (Object [(''format_long_name'', String ''MP3''), (''tags'', tags)])" for tags t
    by (simp add: formatInfo_def sampleProbe_def optionalGet_def property_def)
  note track = title_sources [of sampleNamelessTrack sampleNormalizedNameless]
  note release = title_sources [of _ "sampleNormalizedRelease (String ''S'')" "sampleAlbum sampleImages"]
  note primary = title_sources
    [of _ _ _ "sampleMeta (String ''Song'')" "Object [(''title'', String ''Song''), (''artist'', String ''A'')]"
        "sampleProbe (Object [(''title'', String ''From tags'')])"
        "Object [(''format_long_name'', String ''MP3''),
                 (''tags'', Object [(''title'', String ''From tags'')])]"]
  note secondary = title_sources
    [of _ _ _ "sampleMeta (String [])" "Object [(''title'', String []), (''artist'', String ''A'')]"
        "sampleProbe (Object [(''title'', String ''From tags'')])"
        "Object [(''format_long_name'', String ''MP3''),
                 (''tags'', Object [(''title'', String ''From tags'')])]"]
  note placeholder = title_sources
    [of _ _ _ "sampleMeta Undefined" "Object [(''title'', Undefined), (''artist'', String ''A'')]"
        "sampleProbe Undefined"
        "Object [(''format_long_name'', String ''MP3''), (''tags'', Undefined)]"]
  show ?thesis
    using track release primary secondary placeholder sample_nameless sample_releaseObject c f
    by (simp add: optionalGet_def property_def)
qed

text \<open>
  \<^bold>\<open>C8\<close> as stated fails in the catalog normalizer: a track without a name is
  normalized to an object whose title is \<^verbatim>\<open>undefined\<close>, not \<^verbatim>\<open>Untitled\<close>.
\<close>

theorem missing_name_not_untitled_counterexample:
  "genreTracks (Object [(''tracks'', Array [sampleNamelessTrack])]) = Inr [sampleNormalizedNameless]
   \<and> get sampleNamelessTrack ''name'' = Inr Undefined
   \<and> get sampleNormalizedNameless ''title'' = Inr Undefined
   \<and> get sampleNormalizedNameless ''title'' \<noteq> Inr (String ''Untitled'')"
  by (simp add: normalizer_defs more_sample_defs)

lemma trackObject_duration:
  "trackObject track = Inr obj \<Longrightarrow> get obj ''duration'' = get track ''duration_ms''"
  unfolding trackObject_def andThen_eq_Inr by (auto simp: property_def)

lemma trackObject_artist:
  assumes "trackObject track = Inr obj"
  shows "\<exists>artists names. get track ''artists'' = Inr (Array artists) \<and>
           arrayMap (\<lambda>artist. get artist ''name'') artists = Inr names \<and>
           get obj ''artist'' = Inr (String (arrayJoin '', '' names))"
proof -
  from assms obtain artist where
    "andThen (get track ''artists'') artistNames = Inr artist" "get obj ''artist'' = Inr artist"
    by (auto elim!: trackObject_Inr simp: property_def)
  then show ?thesis
    unfolding artistNames_def andThen_eq_Inr elements_eq_Inr by blast
qed

lemma arrayJoin_strings: "arrayJoin sep (map String ss) = join sep ss"
  by (simp add: arrayJoin_def comp_def)

lemma outputs_are_trackObjects:
  assumes "genreTracks data = Inr out \<or> searchTracks data = Inr out \<or> featuredTracks data = Inr out"
  shows "\<forall>obj \<in> set out. \<exists>track. trackObject track = Inr obj"
  using assms
  by (auto dest!: genreTracks_Inr searchTracks_Inr featuredTracks_Inr dest: list_all2_source)

text \<open>
  \<^bold>\<open>C9\<close> (as amended).  Every object the normalization of a track produces has
  exactly the properties \<^verbatim>\<open>id\<close>, \<^verbatim>\<open>title\<close>, \<^verbatim>\<open>artist\<close>,
  \<^verbatim>\<open>album\<close>, \<^verbatim>\<open>coverArt\<close>, \<^verbatim>\<open>previewUrl\<close>, \<^verbatim>\<open>duration\<close>
  and \<^verbatim>\<open>externalUrl\<close>; the duration property is named \<^verbatim>\<open>duration\<close> and
  carries the upstream \<^verbatim>\<open>duration_ms\<close> unchanged; \<^verbatim>\<open>artist\<close> is one string,
  the artists' names joined with a comma and a space.  Every element of the output of the
  three track-producing handlers is such an object.
\<close>

theorem normalized_track_fields:
  "(trackObject track = Inr obj \<longrightarrow>
      keys obj = [''id'', ''title'', ''artist'', ''album'', ''coverArt'', ''previewUrl'',
                  ''duration'', ''externalUrl'']
      \<and> get obj ''duration'' = get track ''duration_ms''
      \<and> (\<exists>artists names. get track ''artists'' = Inr (Array artists) \<and>
            arrayMap (\<lambda>artist. get artist ''name'') artists = Inr names \<and>
            get obj ''artist'' = Inr (String (arrayJoin '', '' names)) \<and>
            (\<forall>ss. names = map String ss \<longrightarrow> get obj ''artist'' = Inr (String (join '', '' ss)))))
   \<and> (genreTracks data = Inr out \<or> searchTracks data = Inr out \<or> featuredTracks data = Inr out
        \<longrightarrow> (\<forall>x \<in> set out. \<exists>t. trackObject t = Inr x))"
proof (intro conjI impI)
  assume t: "trackObject track = Inr obj"
  then show "keys obj = [''id'', ''title'', ''artist'', ''album'', ''coverArt'', ''previewUrl'',
                  ''duration'', ''externalUrl'']"
    by (rule trackObject_keys)
  from t show "get obj ''duration'' = get track ''duration_ms''"
    by (rule trackObject_duration)
  from trackObject_artist [OF t]
  show "\<exists>artists names. get track ''artists'' = Inr (Array artists) \<and>
            arrayMap (\<lambda>artist. get artist ''name'') artists = Inr names \<and>
            get obj ''artist'' = Inr (String (arrayJoin '', '' names)) \<and>
            (\<forall>ss. names = map String ss \<longrightarrow> get obj ''artist'' = Inr (String (join '', '' ss)))"
    by (auto simp: arrayJoin_strings)
next
  assume "genreTracks data = Inr out \<or> searchTracks data = Inr out \<or> featuredTracks data = Inr out"
  then show "\<forall>x \<in> set out. \<exists>t. trackObject t = Inr x"
    by (rule outputs_are_trackObjects)
qed

lemma sample_trackObject:
  "trackObject (sampleTrack ''Y'' (String ''p'')) = Inr sampleNormalizedTrack"
  by (simp add: normalizer_defs sample_defs)

theorem normalized_track_fields_witness:
  "trackObject (sampleTrack ''Y'' (String ''p'')) = Inr sampleNormalizedTrack
   \<and> keys sampleNormalizedTrack =
       [''id'', ''title'', ''artist'', ''album'', ''coverArt'', ''previewUrl'', ''duration'',
        ''externalUrl'']
   \<and> get sampleNormalizedTrack ''duration'' = Inr (Number 1000)
   \<and> get sampleNormalizedTrack ''artist'' = Inr (String (join '', '' [''A'', ''B'']))
   \<and> (\<exists>t. trackObject t = Inr sampleNormalizedTrack)"
proof -
  note inst = normalized_track_fields
    [of "sampleTrack ''Y'' (String ''p'')" sampleNormalizedTrack sampleRecommendations
        "[sampleNormalizedTrack]"]
  have names: "arrayMap (\<lambda>artist. get artist ''name'')
      [Object [(''name'', String ''A'')], Object [(''name'', String ''B'')]] =
      Inr (map String [''A'', ''B''])"
    by (simp add: property_def)
  have artists: "get (sampleTrack ''Y'' (String ''p'')) ''artists'' =
      Inr (Array [Object [(''name'', String ''A'')], Object [(''name'', String ''B'')]])"
    by (simp add: sampleTrack_def property_def)
  have duration: "get (sampleTrack ''Y'' (String ''p'')) ''duration_ms'' = Inr (Number 1000)"
    by (simp add: sampleTrack_def property_def)
  from inst sample_trackObject sample_genreTracks
  have fields: "keys sampleNormalizedTrack =
       [''id'', ''title'', ''artist'', ''album'', ''coverArt'', ''previewUrl'', ''duration'',
        ''externalUrl'']"
    and dur: "get sampleNormalizedTrack ''duration'' = get (sampleTrack ''Y'' (String ''p'')) ''duration_ms''"
    and art: "\<exists>artists names. get (sampleTrack ''Y'' (String ''p'')) ''artists'' = Inr (Array artists) \<and>
            arrayMap (\<lambda>artist. get artist ''name'') artists = Inr names \<and>
            (\<forall>ss. names = map String ss \<longrightarrow>
               get sampleNormalizedTrack ''artist'' = Inr (String (join '', '' ss)))"
    and src: "\<exists>t. trackObject t = Inr sampleNormalizedTrack"
    by auto
  from art obtain artists names where a:
    "get (sampleTrack ''Y'' (String ''p'')) ''artists'' = Inr (Array artists)"
    "arrayMap (\<lambda>artist. get artist ''name'') artists = Inr names"
    "\<forall>ss. names = map String ss \<longrightarrow>
       get sampleNormalizedTrack ''artist'' = Inr (String (join '', '' ss))"
    by blast
  from a(1) artists have "artists = [Object [(''name'', String ''A'')], Object [(''name'', String ''B'')]]"
    by simp
  with a(2) names have "names = map String [''A'', ''B'']"
    by simp
  with a(3) have "get sampleNormalizedTrack ''artist'' = Inr (String (join '', '' [''A'', ''B'']))"
    by blast
  with fields dur duration src sample_trackObject show ?thesis
    by simp
qed

text \<open>
  \<^bold>\<open>C9\<close> as stated fails on the name of the duration property: the normalized
  object has \<^verbatim>\<open>duration\<close> and no \<^verbatim>\<open>durationMs\<close>.
\<close>

theorem duration_field_name_counterexample:
  "genreTracks sampleRecommendations = Inr [sampleNormalizedTrack]
   \<and> keys sampleNormalizedTrack =
       [''id'', ''title'', ''artist'', ''album'', ''coverArt'', ''previewUrl'', ''duration'',
        ''externalUrl'']
   \<and> ''durationMs'' \<notin> set (keys sampleNormalizedTrack)
   \<and> get sampleNormalizedTrack ''durationMs'' = Inr Undefined
   \<and> get sampleNormalizedTrack ''duration'' = Inr (Number 1000)"
  by (simp add: normalizer_defs sample_defs)

end
